theory Spec2Isabelle
  imports Complex_Main
begin

section \<open>The numeric library the notebook calls\<close>

text \<open>
  The notebook \<^verbatim>\<open>boosting.ipynb\<close> computes with \<^verbatim>\<open>float64\<close> values through NumPy, pandas
  and Python's \<^verbatim>\<open>round\<close>. A finite \<^verbatim>\<open>float64\<close> is a real number, and is modelled as
  one; what the library routines compute from such numbers is rounded in binary, and those
  routines are not code of this repository. They are parameters of the model: one field
  of \<open>numeric\<close> for each routine the notebook calls.
  \<^item> \<open>np_mean xs\<close> is \<^verbatim>\<open>xs.mean()\<close>;
  \<^item> \<open>np_std ddof xs\<close> is \<^verbatim>\<open>xs.std(ddof=ddof)\<close>, whose default is \<^verbatim>\<open>ddof=0\<close>;
  \<^item> \<open>py_round x n\<close> is \<^verbatim>\<open>round(x, n)\<close>;
  \<^item> \<open>float_sub\<close>, \<open>float_add\<close> and \<open>float_div\<close> are the \<^verbatim>\<open>float64\<close> operations
    \<^verbatim>\<open>-\<close>, \<^verbatim>\<open>+\<close> and \<^verbatim>\<open>/\<close>;
  \<^item> \<open>timedelta_seconds s\<close> is \<^verbatim>\<open>datetime.timedelta(seconds=s)\<close>, as the whole number of
    microseconds it stores.

  Doubling a \<^verbatim>\<open>float64\<close> is exact, so \<^verbatim>\<open>x*2\<close> is the product of reals. (Overflow to
  \<^verbatim>\<open>inf\<close>, like \<^verbatim>\<open>nan\<close>, is outside the model.) Durations are integers in the code: a
  \<^verbatim>\<open>timedelta\<close> counts microseconds and a \<^verbatim>\<open>timedelta64[ns]\<close> cell of pandas counts
  nanoseconds, and are modelled as such.
\<close>

record numeric =
  np_mean :: "real list \<Rightarrow> real"
  np_std :: "nat \<Rightarrow> real list \<Rightarrow> real"
  py_round :: "real \<Rightarrow> nat \<Rightarrow> real"
  float_sub :: "real \<Rightarrow> real \<Rightarrow> real"
  float_add :: "real \<Rightarrow> real \<Rightarrow> real"
  float_div :: "real \<Rightarrow> real \<Rightarrow> real"
  timedelta_seconds :: "real \<Rightarrow> int"

section \<open>The world of a benchmark run\<close>

text \<open>
  An exception of Python is a value: its class and its message. Every function of the
  notebook that can raise returns \<open>error + 'a\<close> together with the world it leaves.
\<close>

datatype error = Error (exc_class: string) (exc_message: string)

text \<open>
  The classifier configurations the notebook builds, with the keyword arguments it passes.
  They are opaque to the notebook: only the external cross-validator looks inside.
\<close>

datatype estimator =
    DecisionTreeClassifier (max_depth: "nat option") (random_state: "nat option")
  | RandomForestClassifier (n_estimators: nat) (max_depth: "nat option")
      (random_state: "nat option")
  | AdaBoostClassifier (base_estimator: estimator) (n_estimators: nat) (algorithm: string)
      (random_state: "nat option")
  | GradientBoostingClassifier (n_estimators: nat) (max_depth: "nat option")
      (random_state: "nat option")
  | XGBClassifier (n_estimators: nat) (max_depth: "nat option") (random_state: "nat option")

type_synonym ref = nat

record matrix =
  n_rows :: nat
  n_cols :: nat
  entries :: "real list"

text \<open>
  What the external library can read and write: the process clock that
  \<^verbatim>\<open>time.process_time()\<close> reads (in seconds), the state of NumPy's global random
  generator (used by an estimator built without \<^verbatim>\<open>random_state\<close>), and the arrays of
  the heap. \<^verbatim>\<open>X_dataset\<close> and \<^verbatim>\<open>y_dataset\<close> are references to a float matrix and to
  an integer vector.
\<close>

record environment =
  clock :: real
  rng :: nat
  matrices :: "ref \<Rightarrow> matrix"
  vectors :: "ref \<Rightarrow> int list"

datatype printed = Shape string "nat list" | Values string "int set"

text \<open>
  The world adds what the notebook itself prints, and a log of the calls made to the
  external cross-validator. The log is not a variable of the notebook: it records the
  calls so that theorems can speak about them.
\<close>

record world =
  environ :: environment
  stdout :: "printed list"
  cv_log :: "(estimator \<times> ref \<times> ref \<times> int) list"

text \<open>
  \<^verbatim>\<open>sklearn.model_selection.cross_val_score(model, X, y, cv=cv)\<close> is not code of this
  repository. It is a parameter of the model: any function from the estimator, the two
  arrays, the fold count and the environment to an exception or the fold scores, and the
  environment it leaves behind.
\<close>

type_synonym cross_validator =
  "estimator \<Rightarrow> ref \<Rightarrow> ref \<Rightarrow> int \<Rightarrow> environment \<Rightarrow> (error + real list) \<times> environment"

definition process_time :: "world \<Rightarrow> real" where
  "process_time w = clock (environ w)"

definition cross_val_score ::
  "cross_validator \<Rightarrow> estimator \<Rightarrow> ref \<Rightarrow> ref \<Rightarrow> int \<Rightarrow> world \<Rightarrow> (error + real list) \<times> world"
where
  "cross_val_score ext model X y cv w =
     (case ext model X y cv (environ w) of
        (r, e') \<Rightarrow> (r, w\<lparr>environ := e', cv_log := cv_log w @ [(model, X, y, cv)]\<rparr>))"

definition print :: "printed \<Rightarrow> world \<Rightarrow> world" where
  "print line w = w\<lparr>stdout := stdout w @ [line]\<rparr>"

section \<open>The Timed Evaluator: \<^verbatim>\<open>score_and_time\<close>\<close>

text \<open>
  \<^verbatim>\<open>
  def score_and_time(model, X_dataset, y_dataset, cv):
      t_start = process_time()
      scores = model_selection.cross_val_score(model, X_dataset, y_dataset, cv=cv)
      t_stop = process_time()
      part_l = [round(scores.mean(), 3), round(scores.std()*2, 3),
                datetime.timedelta(seconds=t_stop-t_start)]
      return part_l
  \<close>
  The list it returns holds two floats and a \<^verbatim>\<open>timedelta\<close>. \<^verbatim>\<open>scores.std()\<close> passes no
  \<^verbatim>\<open>ddof\<close>, so NumPy takes its default 0. An exception of the cross-validator leaves the
  function at once: the second clock read and the reduction are not reached.
\<close>

datatype pyval = PyFloat real | PyTimedelta int

definition score_and_time ::
  "numeric \<Rightarrow> cross_validator \<Rightarrow> estimator \<Rightarrow> ref \<Rightarrow> ref \<Rightarrow> int \<Rightarrow> world
     \<Rightarrow> (error + pyval list) \<times> world"
where
  "score_and_time lib ext model X_dataset y_dataset cv w =
     (let t_start = process_time w
      in case cross_val_score ext model X_dataset y_dataset cv w of
           (Inl e, w') \<Rightarrow> (Inl e, w')
         | (Inr scores, w') \<Rightarrow>
             (let t_stop = process_time w';
                  part_l = [PyFloat (py_round lib (np_mean lib scores) 3),
                            PyFloat (py_round lib (np_std lib 0 scores * 2) 3),
                            PyTimedelta (timedelta_seconds lib (float_sub lib t_stop t_start))]
              in (Inr part_l, w')))"

section \<open>The Benchmark Runner: \<^verbatim>\<open>ml_benchmark\<close>\<close>

text \<open>
  A cell of a pandas \<^verbatim>\<open>DataFrame\<close>: a \<^verbatim>\<open>float64\<close>, or a \<^verbatim>\<open>timedelta64[ns]\<close>, which is
  a whole number of nanoseconds. The constructor converts a column of Python
  \<^verbatim>\<open>timedelta\<close> objects to \<^verbatim>\<open>timedelta64[ns]\<close>. (A column mixing floats and timedeltas
  would stay a column of Python objects; the tables of the notebook have none.)
\<close>

datatype cell = Num real | TD int

record dataframe =
  df_index :: "string list"
  df_columns :: "string list"
  df_data :: "cell list list"

fun to_cell :: "pyval \<Rightarrow> cell" where
  "to_cell (PyFloat x) = Num x"
| "to_cell (PyTimedelta us) = TD (1000 * us)"

definition DataFrame :: "pyval list list \<Rightarrow> string list \<Rightarrow> string list \<Rightarrow> error + dataframe" where
  \<comment> \<open>\<^verbatim>\<open>pd.DataFrame(l, index=..., columns=...)\<close> for a list of rows. pandas refuses
      labels that do not fit the shape of the data. (It would pad a short row with missing
      values; the model has no such cell and refuses a short row too.)\<close>
  "DataFrame l index columns =
     (if length l = length index \<and> list_all (\<lambda>r. length r = length columns) l
      then Inr \<lparr>df_index = index, df_columns = columns, df_data = map (map to_cell) l\<rparr>
      else Inl (Error ''ValueError'' ''Shape of passed values does not match the labels''))"

definition and_then ::
  "('w \<Rightarrow> (error + 'a) \<times> 'w) \<Rightarrow> ('a \<Rightarrow> 'w \<Rightarrow> (error + 'b) \<times> 'w) \<Rightarrow> 'w \<Rightarrow> (error + 'b) \<times> 'w"
where
  \<comment> \<open>one statement after another: an exception of the first skips the rest\<close>
  "and_then m f w = (case m w of (Inl e, w') \<Rightarrow> (Inl e, w') | (Inr x, w') \<Rightarrow> f x w')"

definition rows_name :: "string list" where
  "rows_name = [''DecisionTreeClassifier'', ''RandomForestClassifier'', ''AdaBoostClassifier'',
                ''GradientBoostingClassifier'', ''XGBoost'']"

definition columns_name :: "string list" where
  "columns_name = [''Approx. mean of scores'', ''Approx. variance of scores'',
                   ''Processing time'']"

text \<open>
  \<^verbatim>\<open>
  def ml_benchmark(X_dataset, y_dataset, cv):
      print('The shape of X_dataset is:', X_dataset.shape)
      print('The shape of y_dataset is:', y_dataset.shape)
      print('The set of values of y_dataset is:', set(y_dataset))
      rows_name = [...]
      columns_name = [...]
      l = []
      model = DecisionTreeClassifier(random_state=0)
      l.append(score_and_time(model, X_dataset, y_dataset, cv))
      model = RandomForestClassifier(n_estimators=50, max_depth=2, random_state=0)
      l.append(score_and_time(model, X_dataset, y_dataset, cv))
      model = AdaBoostClassifier(DecisionTreeClassifier(max_depth=2), n_estimators=50,
                                 algorithm='SAMME', random_state=0)
      l.append(score_and_time(model, X_dataset, y_dataset, cv))
      model= GradientBoostingClassifier(n_estimators=50, max_depth=2)
      l.append(score_and_time(model, X_dataset, y_dataset, cv))
      model = xgb.XGBClassifier(n_estimators=50, max_depth=2, random_state=0)
      l.append(score_and_time(model, X_dataset, y_dataset, cv))
      out = pd.DataFrame(l, index = rows_name, columns = columns_name)
      return out
  \<close>
  A keyword argument the source does not pass is \<open>None\<close>: the fourth estimator is built
  without \<^verbatim>\<open>random_state\<close>.
\<close>

definition ml_benchmark ::
  "numeric \<Rightarrow> cross_validator \<Rightarrow> ref \<Rightarrow> ref \<Rightarrow> int \<Rightarrow> world
     \<Rightarrow> (error + dataframe) \<times> world"
where
  "ml_benchmark lib ext X_dataset y_dataset cv w =
     (let X_value = matrices (environ w) X_dataset;
          y_value = vectors (environ w) y_dataset;
          w1 = print (Shape ''The shape of X_dataset is:'' [n_rows X_value, n_cols X_value]) w;
          w2 = print (Shape ''The shape of y_dataset is:'' [length y_value]) w1;
          w3 = print (Values ''The set of values of y_dataset is:'' (set y_value)) w2;
          l = []
      in and_then (score_and_time lib ext (DecisionTreeClassifier None (Some 0))
                     X_dataset y_dataset cv) (\<lambda>part_l.
         let l = l @ [part_l]
         in and_then (score_and_time lib ext (RandomForestClassifier 50 (Some 2) (Some 0))
                        X_dataset y_dataset cv) (\<lambda>part_l.
         let l = l @ [part_l]
         in and_then (score_and_time lib ext
                        (AdaBoostClassifier (DecisionTreeClassifier (Some 2) None) 50 ''SAMME''
                           (Some 0))
                        X_dataset y_dataset cv) (\<lambda>part_l.
         let l = l @ [part_l]
         in and_then (score_and_time lib ext (GradientBoostingClassifier 50 (Some 2) None)
                        X_dataset y_dataset cv) (\<lambda>part_l.
         let l = l @ [part_l]
         in and_then (score_and_time lib ext (XGBClassifier 50 (Some 2) (Some 0))
                        X_dataset y_dataset cv) (\<lambda>part_l.
         let l = l @ [part_l]
         in (\<lambda>w'. (DataFrame l rows_name columns_name, w'))))))) w3)"

section \<open>Averaging the tables of the four datasets\<close>

text \<open>
  \<^verbatim>\<open>
  df_benchmark_total = (df_benchmark_1+df_benchmark_2+df_benchmark_3+df_benchmark_4)
  df_benchmark_total = df_benchmark_total.divide(4)
  \<close>
  pandas adds two frames label by label. For two frames with the same index and the same
  columns in the same order, which is what \<^verbatim>\<open>ml_benchmark\<close> returns, that is the sum
  cell by cell: a \<^verbatim>\<open>float64\<close> sum for two floats, the sum of the nanoseconds for two
  durations. \<open>None\<close> stands for what this model leaves out: frames whose labels differ
  (pandas realigns them and fills the gaps with missing values), a float added to a
  duration (pandas raises \<^verbatim>\<open>TypeError\<close>), and a division by zero.

  A \<^verbatim>\<open>timedelta64[ns]\<close> divided by an integer is again a whole number of nanoseconds: the
  quotient is truncated toward zero.
\<close>

fun cell_add :: "numeric \<Rightarrow> cell \<Rightarrow> cell \<Rightarrow> cell option" where
  "cell_add lib (Num a) (Num b) = Some (Num (float_add lib a b))"
| "cell_add lib (TD a) (TD b) = Some (TD (a + b))"
| "cell_add lib _ _ = None"

fun row_add :: "numeric \<Rightarrow> cell list \<Rightarrow> cell list \<Rightarrow> cell list option" where
  "row_add lib [] [] = Some []"
| "row_add lib (a # as) (b # bs) =
     (case cell_add lib a b of
        None \<Rightarrow> None
      | Some c \<Rightarrow> (case row_add lib as bs of None \<Rightarrow> None | Some cs \<Rightarrow> Some (c # cs)))"
| "row_add lib _ _ = None"

fun rows_add :: "numeric \<Rightarrow> cell list list \<Rightarrow> cell list list \<Rightarrow> cell list list option" where
  "rows_add lib [] [] = Some []"
| "rows_add lib (r # rs) (s # ss) =
     (case row_add lib r s of
        None \<Rightarrow> None
      | Some t \<Rightarrow> (case rows_add lib rs ss of None \<Rightarrow> None | Some ts \<Rightarrow> Some (t # ts)))"
| "rows_add lib _ _ = None"

definition df_add :: "numeric \<Rightarrow> dataframe \<Rightarrow> dataframe \<Rightarrow> dataframe option" where
  "df_add lib a b =
     (if df_index a = df_index b \<and> df_columns a = df_columns b
      then (case rows_add lib (df_data a) (df_data b) of
              None \<Rightarrow> None
            | Some rs \<Rightarrow> Some \<lparr>df_index = df_index a, df_columns = df_columns a, df_data = rs\<rparr>)
      else None)"

definition truncate_div :: "int \<Rightarrow> int \<Rightarrow> int" where
  \<comment> \<open>integer division truncating toward zero, as C and NumPy divide\<close>
  "truncate_div a b = sgn a * sgn b * (\<bar>a\<bar> div \<bar>b\<bar>)"

fun cell_divide :: "numeric \<Rightarrow> int \<Rightarrow> cell \<Rightarrow> cell" where
  "cell_divide lib n (Num a) = Num (float_div lib a (of_int n))"
| "cell_divide lib n (TD a) = TD (truncate_div a n)"

definition df_divide :: "numeric \<Rightarrow> dataframe \<Rightarrow> int \<Rightarrow> dataframe option" where
  "df_divide lib a n =
     (if n = 0 then None else Some (a\<lparr>df_data := map (map (cell_divide lib n)) (df_data a)\<rparr>))"

definition df_benchmark_total ::
  "numeric \<Rightarrow> dataframe \<Rightarrow> dataframe \<Rightarrow> dataframe \<Rightarrow> dataframe \<Rightarrow> dataframe option"
where
  "df_benchmark_total lib df_benchmark_1 df_benchmark_2 df_benchmark_3 df_benchmark_4 =
     (case df_add lib df_benchmark_1 df_benchmark_2 of
        None \<Rightarrow> None
      | Some s12 \<Rightarrow>
          (case df_add lib s12 df_benchmark_3 of
             None \<Rightarrow> None
           | Some s123 \<Rightarrow>
               (case df_add lib s123 df_benchmark_4 of
                  None \<Rightarrow> None
                | Some s1234 \<Rightarrow> df_divide lib s1234 4)))"

section \<open>The words of the specification\<close>

text \<open>The three lines \<^verbatim>\<open>ml_benchmark\<close> prints before it evaluates anything.\<close>

definition header :: "ref \<Rightarrow> ref \<Rightarrow> world \<Rightarrow> printed list" where
  "header X y w =
     [Shape ''The shape of X_dataset is:''
        [n_rows (matrices (environ w) X), n_cols (matrices (environ w) X)],
      Shape ''The shape of y_dataset is:'' [length (vectors (environ w) y)],
      Values ''The set of values of y_dataset is:'' (set (vectors (environ w) y))]"

text \<open>
  The roster of the specification: the five configurations, in the order in which
  \<^verbatim>\<open>ml_benchmark\<close> builds them. "For each roster entry, calls the Timed Evaluator with the
  same features, labels, fold count; collects the resulting triples in roster order" is
  \<open>evaluate_roster\<close>: it stops at the first evaluation that raises.
\<close>

definition roster :: "estimator list" where
  "roster =
     [DecisionTreeClassifier None (Some 0),
      RandomForestClassifier 50 (Some 2) (Some 0),
      AdaBoostClassifier (DecisionTreeClassifier (Some 2) None) 50 ''SAMME'' (Some 0),
      GradientBoostingClassifier 50 (Some 2) None,
      XGBClassifier 50 (Some 2) (Some 0)]"

fun evaluate_roster ::
  "numeric \<Rightarrow> cross_validator \<Rightarrow> estimator list \<Rightarrow> ref \<Rightarrow> ref \<Rightarrow> int \<Rightarrow> world
     \<Rightarrow> (error + pyval list list) \<times> world"
where
  "evaluate_roster lib ext [] X y cv w = (Inr [], w)"
| "evaluate_roster lib ext (m # ms) X y cv w =
     (case score_and_time lib ext m X y cv w of
        (Inl e, w') \<Rightarrow> (Inl e, w')
      | (Inr part_l, w') \<Rightarrow>
          (case evaluate_roster lib ext ms X y cv w' of
             (Inl e, w'') \<Rightarrow> (Inl e, w'')
           | (Inr l, w'') \<Rightarrow> (Inr (part_l # l), w'')))"

text \<open>
  A Benchmark Table of the specification: the five roster names as row keys, the three
  column names, and in every row a mean score, a score spread and a duration. The three
  functions below read one row of such a table (for a row of another form they return 0).
\<close>

fun benchmark_row :: "cell list \<Rightarrow> bool" where
  "benchmark_row [Num m, Num s, TD d] = True"
| "benchmark_row _ = False"

definition benchmark_table :: "dataframe \<Rightarrow> bool" where
  "benchmark_table t \<longleftrightarrow>
     df_index t = rows_name \<and> df_columns t = columns_name \<and> length (df_data t) = 5
     \<and> list_all benchmark_row (df_data t)"

fun row_mean :: "cell list \<Rightarrow> real" where
  "row_mean [Num m, Num s, TD d] = m"
| "row_mean _ = 0"

fun row_spread :: "cell list \<Rightarrow> real" where
  "row_spread [Num m, Num s, TD d] = s"
| "row_spread _ = 0"

fun row_duration :: "cell list \<Rightarrow> int" where
  "row_duration [Num m, Num s, TD d] = d"
| "row_duration _ = 0"

definition mean_score :: "dataframe \<Rightarrow> nat \<Rightarrow> real" where
  "mean_score t i = row_mean (df_data t ! i)"

definition score_spread :: "dataframe \<Rightarrow> nat \<Rightarrow> real" where
  "score_spread t i = row_spread (df_data t ! i)"

definition duration :: "dataframe \<Rightarrow> nat \<Rightarrow> int" where
  \<comment> \<open>in nanoseconds\<close>
  "duration t i = row_duration (df_data t ! i)"

text \<open>
  The fold scores the external cross-validator returns to the successive evaluations of a
  run over the given estimators, up to the first one that raises.
\<close>

fun external_scores ::
  "cross_validator \<Rightarrow> estimator list \<Rightarrow> ref \<Rightarrow> ref \<Rightarrow> int \<Rightarrow> environment \<Rightarrow> real list list"
where
  "external_scores ext [] X y cv e = []"
| "external_scores ext (m # ms) X y cv e =
     (case ext m X y cv e of
        (Inl err, e') \<Rightarrow> []
      | (Inr scores, e') \<Rightarrow> scores # external_scores ext ms X y cv e')"

text \<open>
  NumPy documents \<^verbatim>\<open>std(ddof)\<close> as the square root of the squared deviations from the mean,
  summed and divided by \<open>n - ddof\<close>. The specification calls the spread "two times the
  sample standard deviation of the fold scores": the sample standard deviation divides by
  \<open>n - 1\<close>, the population standard deviation by \<open>n\<close>.
\<close>

definition std_ddof :: "nat \<Rightarrow> real list \<Rightarrow> real" where
  "std_ddof ddof xs =
     sqrt ((\<Sum>x\<leftarrow>xs. (x - sum_list xs / real (length xs))\<^sup>2) / (real (length xs) - real ddof))"

definition sample_std :: "real list \<Rightarrow> real" where
  "sample_std xs = std_ddof 1 xs"

definition population_std :: "real list \<Rightarrow> real" where
  "population_std xs = std_ddof 0 xs"

text \<open>
  "Rounded to 3 decimal digits", for a result \<open>r\<close> that is a \<^verbatim>\<open>float64\<close>: \<open>r\<close> stands for
  a multiple \<open>k / 1000\<close> of one thousandth that is nearest to \<open>x\<close>, where \<open>eps\<close> bounds what
  binary rounding adds on either side (a \<^verbatim>\<open>float64\<close> is rarely a multiple of one
  thousandth itself).
\<close>

definition rounds_to_3_digits :: "real \<Rightarrow> real \<Rightarrow> real \<Rightarrow> bool" where
  "rounds_to_3_digits eps x r \<longleftrightarrow>
     (\<exists>k::int. \<bar>r - real_of_int k / 1000\<bar> \<le> eps \<and> \<bar>real_of_int k / 1000 - x\<bar> \<le> 1 / 2000 + eps)"

text \<open>
  What the \<^verbatim>\<open>float64\<close> routines keep of the order of the reals, because binary rounding is
  monotone and 0 and 1 are \<^verbatim>\<open>float64\<close> values: the mean of numbers in \<open>[0, 1]\<close> is in
  \<open>[0, 1]\<close>; a standard deviation is not negative; rounding to 3 digits takes no number
  below 0 or above 1 across that bound; the difference of a number and a smaller one is not
  negative; and the \<^verbatim>\<open>timedelta\<close> of a non-negative number of seconds is not negative.
\<close>

definition respects_ranges :: "numeric \<Rightarrow> bool" where
  "respects_ranges lib \<longleftrightarrow>
     (\<forall>xs. xs \<noteq> [] \<and> (\<forall>s\<in>set xs. 0 \<le> s \<and> s \<le> 1) \<longrightarrow> 0 \<le> np_mean lib xs \<and> np_mean lib xs \<le> 1)
     \<and> (\<forall>xs. 0 \<le> np_std lib 0 xs)
     \<and> (\<forall>x. 0 \<le> x \<longrightarrow> 0 \<le> py_round lib x 3)
     \<and> (\<forall>x. x \<le> 1 \<longrightarrow> py_round lib x 3 \<le> 1)
     \<and> (\<forall>a b. b \<le> a \<longrightarrow> 0 \<le> float_sub lib a b)
     \<and> (\<forall>s. 0 \<le> s \<longrightarrow> 0 \<le> timedelta_seconds lib s)"

text \<open>
  What the four-table average computes in one float cell, from the four cells \<open>a\<close>, \<open>b\<close>,
  \<open>c\<close>, \<open>d\<close> of the four tables; and the statement that each of its three \<^verbatim>\<open>float64\<close>
  additions and its division is within \<open>eps\<close> of the exact result.
\<close>

definition float_mean4 :: "numeric \<Rightarrow> real \<Rightarrow> real \<Rightarrow> real \<Rightarrow> real \<Rightarrow> real" where
  "float_mean4 lib a b c d =
     float_div lib (float_add lib (float_add lib (float_add lib a b) c) d) 4"

definition mean4_accurate :: "numeric \<Rightarrow> real \<Rightarrow> real \<Rightarrow> real \<Rightarrow> real \<Rightarrow> real \<Rightarrow> bool" where
  "mean4_accurate lib eps a b c d \<longleftrightarrow>
     \<bar>float_add lib a b - (a + b)\<bar> \<le> eps
     \<and> \<bar>float_add lib (float_add lib a b) c - (float_add lib a b + c)\<bar> \<le> eps
     \<and> \<bar>float_add lib (float_add lib (float_add lib a b) c) d
          - (float_add lib (float_add lib a b) c + d)\<bar> \<le> eps
     \<and> \<bar>float_mean4 lib a b c d
          - float_add lib (float_add lib (float_add lib a b) c) d / 4\<bar> \<le> eps"

section \<open>The library routines computed exactly\<close>

text \<open>
  The same routines on the reals, with no binary rounding: rounding to the nearest, ties to
  even, as Python 3 and NumPy round. They agree with the \<^verbatim>\<open>float64\<close> routines where
  those are exact, as on the fold scores and timestamps of the concrete runs below, which
  are binary fractions; the concrete runs are their only use.
\<close>

definition rint :: "real \<Rightarrow> int" where
  "rint x =
     (let f = \<lfloor>x\<rfloor>; d = x - of_int f
      in if d < 1 / 2 then f
         else if 1 / 2 < d then f + 1
         else if even f then f else f + 1)"

definition exact_round :: "real \<Rightarrow> nat \<Rightarrow> real" where
  "exact_round x ndigits = of_int (rint (x * 10 ^ ndigits)) / 10 ^ ndigits"

definition exact_mean :: "real list \<Rightarrow> real" where
  "exact_mean xs = sum_list xs / of_nat (length xs)"

definition exact_timedelta :: "real \<Rightarrow> int" where
  "exact_timedelta s = rint (s * 1000000)"

definition exact_library :: numeric where
  "exact_library =
     \<lparr>np_mean = exact_mean, np_std = std_ddof, py_round = exact_round,
      float_sub = (\<lambda>a b. a - b), float_add = (\<lambda>a b. a + b), float_div = (\<lambda>a b. a / b),
      timedelta_seconds = exact_timedelta\<rparr>"

section \<open>Concrete runs\<close>

text \<open>
  A world to start from, and cross-validators that stand in for the external library in
  examples: one that returns the given fold scores after the given processor time, and one
  that raises for one estimator.
\<close>

definition start_world :: world where
  "start_world =
     \<lparr>environ = \<lparr>clock = 1 / 2, rng = 0,
                  matrices = (\<lambda>_. \<lparr>n_rows = 4, n_cols = 1, entries = [0, 1, 2, 3]\<rparr>),
                  vectors = (\<lambda>_. [0, 0, 1, 1])\<rparr>,
      stdout = [], cv_log = []\<rparr>"

definition constant_validator :: "real list \<Rightarrow> real \<Rightarrow> cross_validator" where
  "constant_validator scores elapsed =
     (\<lambda>model X y cv e. (Inr scores, e\<lparr>clock := clock e + elapsed\<rparr>))"

definition later :: "real \<Rightarrow> environment" where
  \<comment> \<open>the environment of \<open>start_world\<close> after the given processor time\<close>
  "later t = (environ start_world)\<lparr>clock := clock (environ start_world) + t\<rparr>"

definition uniform_table :: "real \<Rightarrow> real \<Rightarrow> int \<Rightarrow> dataframe" where
  \<comment> \<open>a benchmark table whose five rows are the same\<close>
  "uniform_table m s d =
     \<lparr>df_index = rows_name, df_columns = columns_name,
      df_data = replicate 5 [Num m, Num s, TD d]\<rparr>"

definition with_rng :: "nat \<Rightarrow> world \<Rightarrow> world" where
  \<comment> \<open>the same world with another state of the global random generator\<close>
  "with_rng n w = w\<lparr>environ := (environ w)\<lparr>rng := n\<rparr>\<rparr>"

definition failing_validator :: "estimator \<Rightarrow> error \<Rightarrow> cross_validator" where
  \<comment> \<open>raises for one estimator, after a quarter of a second\<close>
  "failing_validator bad err =
     (\<lambda>model X y cv e.
        if model = bad then (Inl err, e\<lparr>clock := clock e + 1 / 4\<rparr>)
        else (Inr [1 / 2, 1], e\<lparr>clock := clock e + 1\<rparr>))"

definition scratch_validator :: cross_validator where
  \<comment> \<open>allocates a work array next to the features, and leaves the dataset alone\<close>
  "scratch_validator =
     (\<lambda>model X y cv e.
        (Inr [1 / 2, 1],
         e\<lparr>clock := clock e + 1,
           matrices := (matrices e)(Suc X := \<lparr>n_rows = 0, n_cols = 0, entries = []\<rparr>)\<rparr>))"

definition seeded_validator :: cross_validator where
  \<comment> \<open>honours \<^verbatim>\<open>random_state\<close>: the scores of a seeded estimator do not depend on the
      global generator; an unseeded estimator draws from the global generator\<close>
  "seeded_validator =
     (\<lambda>model X y cv e.
        if random_state model = None
        then (Inr [real (rng e mod 2), 1], e\<lparr>clock := clock e + 1, rng := rng e + 1\<rparr>)
        else (Inr [1 / 2, 1], e\<lparr>clock := clock e + 1\<rparr>))"

section \<open>Facts about rounding and the standard deviation\<close>

lemma rint_of_int [simp]: "rint (of_int k) = k"
  by (simp add: rint_def)

lemma rint_ge: "of_int k \<le> x \<Longrightarrow> k \<le> rint x"
proof -
  assume "of_int k \<le> x"
  then have "k \<le> \<lfloor>x\<rfloor>" by (simp add: le_floor_iff)
  then show ?thesis by (simp add: rint_def Let_def)
qed

lemma rint_le: "x \<le> of_int k \<Longrightarrow> rint x \<le> k"
proof (cases "x = of_int k")
  case True
  then show ?thesis by simp
next
  case False
  assume "x \<le> of_int k"
  with False have "x < of_int k" by simp
  then have "\<lfloor>x\<rfloor> < k" by (simp add: floor_less_iff)
  then show ?thesis by (simp add: rint_def Let_def)
qed

lemma rint_close: "\<bar>of_int (rint x) - x\<bar> \<le> 1 / 2"
proof -
  have "of_int \<lfloor>x\<rfloor> \<le> x" "x < of_int \<lfloor>x\<rfloor> + 1" by linarith+
  then show ?thesis by (auto simp add: rint_def Let_def)
qed

lemma rint_eqI: "of_int k - 1 / 2 < x \<Longrightarrow> x < of_int k + 1 / 2 \<Longrightarrow> rint x = k"
proof -
  assume a: "of_int k - 1 / 2 < x" and b: "x < of_int k + 1 / 2"
  have c: "\<bar>of_int (rint x) - x\<bar> \<le> 1 / 2" by (rule rint_close)
  have "\<bar>real_of_int (rint x) - of_int k\<bar> < 1" using a b c by linarith
  then have "\<bar>real_of_int (rint x - k)\<bar> < 1" by simp
  then have "\<bar>rint x - k\<bar> < 1" by linarith
  then show ?thesis by simp
qed

lemma rint_numeral [simp]: "rint (numeral n) = numeral n"
  using rint_of_int [of "numeral n"] by simp

lemma rint_0 [simp]: "rint 0 = 0"
  using rint_of_int [of 0] by simp

lemma rint_1 [simp]: "rint 1 = 1"
  using rint_of_int [of 1] by simp

lemma exact_round_nonneg: "0 \<le> x \<Longrightarrow> 0 \<le> exact_round x n"
proof -
  assume "0 \<le> x"
  then have "real_of_int 0 \<le> x * 10 ^ n" by simp
  then have "0 \<le> rint (x * 10 ^ n)" by (rule rint_ge)
  then show ?thesis by (simp add: exact_round_def)
qed

lemma exact_round_le_one: "x \<le> 1 \<Longrightarrow> exact_round x n \<le> 1"
proof -
  assume "x \<le> 1"
  then have "x * 10 ^ n \<le> real_of_int (10 ^ n)" by simp
  then have "rint (x * 10 ^ n) \<le> 10 ^ n" by (rule rint_le)
  then have "real_of_int (rint (x * 10 ^ n)) \<le> 10 ^ n"
    by (metis of_int_le_iff of_int_numeral of_int_power)
  then show ?thesis by (simp add: exact_round_def field_simps)
qed

lemma exact_round_3_digits: "rounds_to_3_digits 0 x (exact_round x 3)"
proof -
  have "\<bar>real_of_int (rint (x * 1000)) - x * 1000\<bar> \<le> 1 / 2" by (rule rint_close)
  then have "\<bar>real_of_int (rint (x * 1000)) / 1000 - x\<bar> \<le> 1 / 2000"
    by (simp add: field_simps)
  then have "\<bar>exact_round x 3 - real_of_int (rint (x * 1000)) / 1000\<bar> \<le> 0
      \<and> \<bar>real_of_int (rint (x * 1000)) / 1000 - x\<bar> \<le> 1 / 2000 + 0"
    by (simp add: exact_round_def)
  then show ?thesis unfolding rounds_to_3_digits_def by blast
qed

lemma rounds_to_3_digits_shift:
  assumes "rounds_to_3_digits eps x r" and "\<bar>x - y\<bar> \<le> d"
  shows "rounds_to_3_digits (eps + d) y r"
proof -
  from assms(1) obtain k :: int where
    k: "\<bar>r - real_of_int k / 1000\<bar> \<le> eps" "\<bar>real_of_int k / 1000 - x\<bar> \<le> 1 / 2000 + eps"
    unfolding rounds_to_3_digits_def by blast
  have d: "0 \<le> d" using assms(2) by linarith
  have "\<bar>r - real_of_int k / 1000\<bar> \<le> eps + d" using k(1) d by linarith
  moreover have "\<bar>real_of_int k / 1000 - y\<bar> \<le> 1 / 2000 + (eps + d)"
    using k(2) assms(2) by linarith
  ultimately show ?thesis unfolding rounds_to_3_digits_def by blast
qed

lemma four_step_bound:
  "\<bar>s1 - (a + b)\<bar> \<le> eps \<Longrightarrow> \<bar>s2 - (s1 + c)\<bar> \<le> eps \<Longrightarrow> \<bar>s3 - (s2 + d)\<bar> \<le> eps
     \<Longrightarrow> \<bar>q - s3 / 4\<bar> \<le> eps \<Longrightarrow> \<bar>q - (a + b + c + d) / 4\<bar> \<le> 7 * eps / (4::real)"
  unfolding abs_le_iff by (auto simp add: field_simps)

lemma mean4_bound:
  assumes "mean4_accurate lib eps a b c d"
  shows "\<bar>float_mean4 lib a b c d - (a + b + c + d) / 4\<bar> \<le> 7 * eps / 4"
proof -
  let ?s1 = "float_add lib a b"
  let ?s2 = "float_add lib ?s1 c"
  let ?s3 = "float_add lib ?s2 d"
  from assms have "\<bar>?s1 - (a + b)\<bar> \<le> eps" "\<bar>?s2 - (?s1 + c)\<bar> \<le> eps"
    "\<bar>?s3 - (?s2 + d)\<bar> \<le> eps" "\<bar>float_mean4 lib a b c d - ?s3 / 4\<bar> \<le> eps"
    by (simp_all add: mean4_accurate_def)
  then show ?thesis by (rule four_step_bound)
qed

lemma sum_list_bounds:
  "\<forall>s\<in>set xs. 0 \<le> s \<and> s \<le> (1::real) \<Longrightarrow> 0 \<le> sum_list xs \<and> sum_list xs \<le> real (length xs)"
  by (induction xs) auto

lemma exact_mean_unit_interval:
  assumes "xs \<noteq> []" and "\<forall>s\<in>set xs. 0 \<le> s \<and> s \<le> (1::real)"
  shows "0 \<le> exact_mean xs \<and> exact_mean xs \<le> 1"
proof -
  have "0 < real (length xs)" using assms(1) by simp
  with sum_list_bounds [OF assms(2)] show ?thesis
    by (simp add: exact_mean_def field_simps)
qed

lemma std_ddof_nonneg: "0 \<le> std_ddof 0 xs"
proof -
  have "0 \<le> (\<Sum>x\<leftarrow>xs. (x - sum_list xs / real (length xs))\<^sup>2)"
    by (rule sum_list_nonneg) auto
  then show ?thesis by (simp add: std_ddof_def)
qed

lemma population_sample_std:
  "population_std xs = sqrt ((real (length xs) - 1) / real (length xs)) * sample_std xs"
proof (cases "length xs = 1")
  case True
  then obtain x where "xs = [x]" by (cases xs) auto
  then show ?thesis by (simp add: population_std_def sample_std_def std_ddof_def)
next
  case False
  then have "real (length xs) - 1 \<noteq> 0" by auto
  then show ?thesis
    by (simp add: population_std_def sample_std_def std_ddof_def real_sqrt_mult [symmetric])
qed

lemma sqrt_sixteenth: "sqrt (1 / 16) = 1 / 4"
proof -
  have "sqrt ((1 / 4)\<^sup>2) = \<bar>1 / 4 :: real\<bar>" by (rule real_sqrt_abs)
  then show ?thesis by (simp add: power2_eq_square)
qed

lemma sqrt_quarter: "sqrt (1 / 4) = 1 / 2"
proof -
  have "sqrt ((1 / 2)\<^sup>2) = \<bar>1 / 2 :: real\<bar>" by (rule real_sqrt_abs)
  then show ?thesis by (simp add: power2_eq_square)
qed

lemma sqrt_sixtyfourth: "sqrt (1 / 64) = 1 / 8"
proof -
  have "sqrt ((1 / 8)\<^sup>2) = \<bar>1 / 8 :: real\<bar>" by (rule real_sqrt_abs)
  then show ?thesis by (simp add: power2_eq_square)
qed

lemma std_half_one: "std_ddof 0 [1 / 2, 1] = 1 / 4"
  by (simp add: std_ddof_def power2_eq_square sqrt_sixteenth)

lemma std_zero_one: "std_ddof 0 [0, 1] = 1 / 2"
  by (simp add: std_ddof_def power2_eq_square sqrt_quarter)

lemma std_three_quarters_one: "std_ddof 0 [3 / 4, 1] = 1 / 8"
  by (simp add: std_ddof_def power2_eq_square sqrt_sixtyfourth)

lemma std_constant: "std_ddof 0 [a, a] = 0"
  by (simp add: std_ddof_def)

lemma sample_std_half_one: "sample_std [1 / 2, 1] = sqrt (1 / 8)"
  by (simp add: sample_std_def std_ddof_def power2_eq_square)

lemma sqrt_eighth_bounds: "7065 / 20000 < sqrt (1 / 8)" "sqrt (1 / 8) < 7075 / 20000"
proof -
  have lo: "(7065 / 20000)\<^sup>2 < (1 / 8 :: real)" by (simp add: power2_eq_square)
  have hi: "(1 / 8 :: real) < (7075 / 20000)\<^sup>2" by (simp add: power2_eq_square)
  show "7065 / 20000 < sqrt (1 / 8)" using lo by (rule real_less_rsqrt)
  show "sqrt (1 / 8) < 7075 / 20000" using hi by (intro real_less_lsqrt) simp_all
qed

lemma exact_round_binary:
  "exact_round 0 3 = 0" "exact_round (1 / 8) 3 = 1 / 8" "exact_round (1 / 4) 3 = 1 / 4"
  "exact_round (1 / 2) 3 = 1 / 2" "exact_round (3 / 4) 3 = 3 / 4"
  "exact_round (7 / 8) 3 = 7 / 8" "exact_round 1 3 = 1" "exact_round 2 3 = 2"
  by (simp_all add: exact_round_def rint_def Let_def)

lemma exact_round_up: "exact_round (1791 / 2048) 3 = 7 / 8"
proof -
  have "rint (1791 * 1000 / 2048 :: real) = 875" by (rule rint_eqI) simp_all
  then show ?thesis by (simp add: exact_round_def)
qed

lemma truncate_div_exact:
  assumes "n dvd s" and "0 < n"
  shows "real_of_int (truncate_div s n) = real_of_int s / real_of_int n"
proof -
  from assms(1) obtain k where k: "s = n * k" by (auto simp: dvd_def)
  have "truncate_div s n = k"
  proof -
    have "\<bar>s\<bar> div \<bar>n\<bar> = \<bar>k\<bar>" using k assms(2) by (simp add: abs_mult)
    moreover have "sgn s = sgn k" using k assms(2) by (simp add: sgn_mult)
    moreover have "sgn n = 1" using assms(2) by simp
    ultimately show ?thesis by (simp add: truncate_div_def mult_sgn_abs)
  qed
  then show ?thesis using k assms(2) by simp
qed

lemma four_whole_microseconds:
  assumes "1000 dvd (d1::int)" "1000 dvd d2" "1000 dvd d3" "1000 dvd d4"
  shows "real_of_int (truncate_div (d1 + d2 + d3 + d4) 4) = real_of_int (d1 + d2 + d3 + d4) / 4"
proof -
  from assms have "1000 dvd d1 + d2 + d3 + d4" by simp
  moreover have "(4::int) dvd 1000" by simp
  ultimately have "4 dvd d1 + d2 + d3 + d4" by (rule dvd_trans [rotated])
  from truncate_div_exact [OF this] show ?thesis by simp
qed

section \<open>What \<^verbatim>\<open>score_and_time\<close> returns\<close>

lemma score_and_time_unfold:
  "score_and_time lib ext m X y cv w =
     (case ext m X y cv (environ w) of
        (Inl e, e') \<Rightarrow> (Inl e, w\<lparr>environ := e', cv_log := cv_log w @ [(m, X, y, cv)]\<rparr>)
      | (Inr scores, e') \<Rightarrow>
          (Inr [PyFloat (py_round lib (np_mean lib scores) 3),
                PyFloat (py_round lib (np_std lib 0 scores * 2) 3),
                PyTimedelta (timedelta_seconds lib (float_sub lib (clock e') (clock (environ w))))],
           w\<lparr>environ := e', cv_log := cv_log w @ [(m, X, y, cv)]\<rparr>))"
  by (simp add: score_and_time_def cross_val_score_def process_time_def Let_def
      split: prod.splits sum.splits)

lemma score_and_time_returns:
  assumes "ext model X y cv (environ w) = (Inr scores, e')"
  shows "score_and_time lib ext model X y cv w =
     (Inr [PyFloat (py_round lib (np_mean lib scores) 3),
           PyFloat (py_round lib (np_std lib 0 scores * 2) 3),
           PyTimedelta (timedelta_seconds lib (float_sub lib (clock e') (clock (environ w))))],
      w\<lparr>environ := e', cv_log := cv_log w @ [(model, X, y, cv)]\<rparr>)"
  using assms by (simp add: score_and_time_unfold)

lemma score_and_time_stdout:
  "score_and_time lib ext m X y cv (w\<lparr>stdout := s\<rparr>) =
     (case score_and_time lib ext m X y cv w of (r, w') \<Rightarrow> (r, w'\<lparr>stdout := s\<rparr>))"
  by (simp add: score_and_time_unfold split: prod.splits sum.splits)

lemma score_and_time_log:
  "cv_log (snd (score_and_time lib ext m X y cv w)) = cv_log w @ [(m, X, y, cv)]"
  by (simp add: score_and_time_unfold split: prod.splits sum.splits)

lemma score_and_time_length:
  "score_and_time lib ext m X y cv w = (Inr part_l, w') \<Longrightarrow> length part_l = 3"
  by (auto simp add: score_and_time_unfold split: prod.splits sum.splits)

lemma score_and_time_ranges_general:
  assumes "ext model X y cv (environ w) = (Inr scores, e')"
    and "scores \<noteq> []"
    and "\<forall>s\<in>set scores. 0 \<le> s \<and> s \<le> 1"
    and "clock (environ w) \<le> clock e'"
    and "respects_ranges lib"
  shows "\<exists>mean_score score_spread duration.
      fst (score_and_time lib ext model X y cv w) =
        Inr [PyFloat mean_score, PyFloat score_spread, PyTimedelta duration]
    \<and> 0 \<le> mean_score \<and> mean_score \<le> 1 \<and> 0 \<le> score_spread \<and> 0 \<le> duration"
proof -
  from assms(5) have
    a: "\<And>xs. xs \<noteq> [] \<Longrightarrow> \<forall>s\<in>set xs. 0 \<le> s \<and> s \<le> 1 \<Longrightarrow> 0 \<le> np_mean lib xs \<and> np_mean lib xs \<le> 1"
    and b: "\<And>xs. 0 \<le> np_std lib 0 xs"
    and c: "\<And>x. 0 \<le> x \<Longrightarrow> 0 \<le> py_round lib x 3"
    and d: "\<And>x. x \<le> 1 \<Longrightarrow> py_round lib x 3 \<le> 1"
    and e: "\<And>a b. b \<le> a \<Longrightarrow> 0 \<le> float_sub lib a b"
    and f: "\<And>s. 0 \<le> s \<Longrightarrow> 0 \<le> timedelta_seconds lib s"
    unfolding respects_ranges_def by blast+
  from a [OF assms(2,3)]
  have m: "0 \<le> py_round lib (np_mean lib scores) 3" "py_round lib (np_mean lib scores) 3 \<le> 1"
    by (simp_all add: c d)
  have "0 \<le> np_std lib 0 scores * 2" using b [of scores] by simp
  then have s: "0 \<le> py_round lib (np_std lib 0 scores * 2) 3" by (rule c)
  have t: "0 \<le> timedelta_seconds lib (float_sub lib (clock e') (clock (environ w)))"
    by (rule f, rule e, rule assms(4))
  from m s t show ?thesis
    by (simp add: score_and_time_returns [of ext model X y cv w scores e' lib, OF assms(1)])
qed

section \<open>What \<^verbatim>\<open>ml_benchmark\<close> does\<close>

lemma ml_benchmark_evaluate_roster:
  "ml_benchmark lib ext X y cv w =
     (case evaluate_roster lib ext roster X y cv (w\<lparr>stdout := stdout w @ header X y w\<rparr>) of
        (Inl e, w') \<Rightarrow> (Inl e, w')
      | (Inr l, w') \<Rightarrow> (DataFrame l rows_name columns_name, w'))"
  by (simp add: ml_benchmark_def roster_def and_then_def Let_def print_def header_def
      split: prod.splits sum.splits)

lemma evaluate_roster_stdout:
  "evaluate_roster lib ext ms X y cv (w\<lparr>stdout := s\<rparr>) =
     (case evaluate_roster lib ext ms X y cv w of (r, w') \<Rightarrow> (r, w'\<lparr>stdout := s\<rparr>))"
proof (induction ms arbitrary: w)
  case Nil
  then show ?case by simp
next
  case (Cons m ms)
  show ?case
    by (simp add: score_and_time_stdout Cons.IH split: prod.splits sum.splits)
qed

lemma evaluate_roster_append:
  "evaluate_roster lib ext (pre @ post) X y cv w =
     (case evaluate_roster lib ext pre X y cv w of
        (Inl e, w') \<Rightarrow> (Inl e, w')
      | (Inr l, w') \<Rightarrow>
          (case evaluate_roster lib ext post X y cv w' of
             (Inl e, w'') \<Rightarrow> (Inl e, w'')
           | (Inr l', w'') \<Rightarrow> (Inr (l @ l'), w'')))"
proof (induction pre arbitrary: w)
  case Nil
  then show ?case by (simp split: prod.splits sum.splits)
next
  case (Cons m pre)
  show ?case
    by (simp add: Cons.IH split: prod.splits sum.splits)
qed

lemma evaluate_roster_rows:
  "evaluate_roster lib ext ms X y cv w = (Inr l, w') \<Longrightarrow>
     length l = length ms \<and> list_all (\<lambda>r. length r = 3) l
     \<and> cv_log w' = cv_log w @ map (\<lambda>m. (m, X, y, cv)) ms"
proof (induction ms arbitrary: w l)
  case Nil
  then show ?case by simp
next
  case (Cons m ms)
  from Cons.prems obtain part_l w1 l1 where
    a: "score_and_time lib ext m X y cv w = (Inr part_l, w1)" and
    b: "evaluate_roster lib ext ms X y cv w1 = (Inr l1, w')" and
    c: "l = part_l # l1"
    by (auto split: prod.splits sum.splits)
  have "cv_log w1 = cv_log w @ [(m, X, y, cv)]"
    using score_and_time_log [of lib ext m X y cv w] a by simp
  with Cons.IH [OF b] score_and_time_length [OF a] c show ?case by simp
qed

lemma DataFrame_rows:
  "length l = 5 \<Longrightarrow> list_all (\<lambda>r. length r = 3) l \<Longrightarrow>
     DataFrame l rows_name columns_name =
       Inr \<lparr>df_index = rows_name, df_columns = columns_name, df_data = map (map to_cell) l\<rparr>"
  by (simp add: DataFrame_def rows_name_def columns_name_def eval_nat_numeral)

lemma ml_benchmark_error_or_table:
  "ml_benchmark lib ext X y cv w =
     (case evaluate_roster lib ext roster X y cv w of
        (Inl e, w') \<Rightarrow> (Inl e, w'\<lparr>stdout := stdout w @ header X y w\<rparr>)
      | (Inr l, w') \<Rightarrow>
          (Inr \<lparr>df_index = rows_name, df_columns = columns_name, df_data = map (map to_cell) l\<rparr>,
           w'\<lparr>stdout := stdout w @ header X y w\<rparr>))"
proof (cases "evaluate_roster lib ext roster X y cv w")
  case (Pair r w')
  show ?thesis
  proof (cases r)
    case (Inl e)
    with Pair show ?thesis
      by (simp add: ml_benchmark_evaluate_roster evaluate_roster_stdout)
  next
    case (Inr l)
    with Pair have "length l = 5" "list_all (\<lambda>r. length r = 3) l"
      using evaluate_roster_rows [of lib ext roster X y cv w l w'] by (simp_all add: roster_def)
    with Pair Inr show ?thesis
      by (simp add: ml_benchmark_evaluate_roster evaluate_roster_stdout DataFrame_rows)
  qed
qed

lemma evaluate_roster_chain:
  assumes "ext m1 X y cv (environ w) = (Inr s1, e1)"
    and "ext m2 X y cv e1 = (Inr s2, e2)"
    and "ext m3 X y cv e2 = (Inr s3, e3)"
    and "ext m4 X y cv e3 = (Inr s4, e4)"
    and "ext m5 X y cv e4 = (Inr s5, e5)"
  shows "\<exists>r1 w1 r2 w2 r3 w3 r4 w4 r5 w5.
      score_and_time lib ext m1 X y cv w = (Inr r1, w1)
    \<and> score_and_time lib ext m2 X y cv w1 = (Inr r2, w2)
    \<and> score_and_time lib ext m3 X y cv w2 = (Inr r3, w3)
    \<and> score_and_time lib ext m4 X y cv w3 = (Inr r4, w4)
    \<and> score_and_time lib ext m5 X y cv w4 = (Inr r5, w5)
    \<and> evaluate_roster lib ext [m1, m2, m3, m4, m5] X y cv w = (Inr [r1, r2, r3, r4, r5], w5)
    \<and> environ w5 = e5"
  using assms by (simp add: score_and_time_unfold)

lemma evaluate_roster_error:
  "evaluate_roster lib ext ms X y cv w = (Inl err, w') \<Longrightarrow>
     \<exists>pre m post l w1. ms = pre @ m # post
       \<and> evaluate_roster lib ext pre X y cv w = (Inr l, w1)
       \<and> score_and_time lib ext m X y cv w1 = (Inl err, w')"
proof (induction ms arbitrary: w)
  case Nil
  then show ?case by simp
next
  case (Cons a ms)
  show ?case
  proof (cases "score_and_time lib ext a X y cv w")
    case (Pair r wa)
    show ?thesis
    proof (cases r)
      case (Inl e)
      with Pair Cons.prems have "score_and_time lib ext a X y cv w = (Inl err, w')" by simp
      then have "a # ms = [] @ a # ms \<and> evaluate_roster lib ext [] X y cv w = (Inr [], w)
          \<and> score_and_time lib ext a X y cv w = (Inl err, w')" by simp
      then show ?thesis by blast
    next
      case (Inr part_l)
      with Pair Cons.prems have "evaluate_roster lib ext ms X y cv wa = (Inl err, w')"
        by (simp split: prod.splits sum.splits)
      from Cons.IH [OF this] obtain pre m post l w1 where
        "ms = pre @ m # post" "evaluate_roster lib ext pre X y cv wa = (Inr l, w1)"
        "score_and_time lib ext m X y cv w1 = (Inl err, w')" by blast
      with Pair Inr have "a # ms = (a # pre) @ m # post
          \<and> evaluate_roster lib ext (a # pre) X y cv w = (Inr (part_l # l), w1)
          \<and> score_and_time lib ext m X y cv w1 = (Inl err, w')" by simp
      then show ?thesis by blast
    qed
  qed
qed

lemma evaluate_roster_frame:
  assumes "\<And>m e. matrices (snd (ext m X y cv e)) X = matrices e X"
    and "\<And>m e. vectors (snd (ext m X y cv e)) y = vectors e y"
  shows "matrices (environ (snd (evaluate_roster lib ext ms X y cv w))) X = matrices (environ w) X
    \<and> vectors (environ (snd (evaluate_roster lib ext ms X y cv w))) y = vectors (environ w) y"
proof (induction ms arbitrary: w)
  case Nil
  then show ?case by simp
next
  case (Cons m ms)
  have s: "environ (snd (score_and_time lib ext m X y cv w)) = snd (ext m X y cv (environ w))"
    by (simp add: score_and_time_unfold split: prod.splits sum.splits)
  show ?case
  proof (cases "score_and_time lib ext m X y cv w")
    case (Pair r w1)
    with s have e: "environ w1 = snd (ext m X y cv (environ w))" by simp
    show ?thesis
    proof (cases r)
      case (Inl err)
      with Pair e show ?thesis by (simp add: assms)
    next
      case (Inr part_l)
      have "snd (evaluate_roster lib ext (m # ms) X y cv w) = snd (evaluate_roster lib ext ms X y cv w1)"
        using Pair Inr by (simp split: prod.splits sum.splits)
      with Cons.IH [of w1] e show ?thesis by (simp add: assms)
    qed
  qed
qed

lemma evaluate_roster_scores:
  "evaluate_roster lib ext ms X y cv w = (Inr l, w') \<Longrightarrow>
     length l = length ms \<and>
     (\<forall>i<length ms. \<exists>us. l ! i =
        [PyFloat (py_round lib (np_mean lib (external_scores ext ms X y cv (environ w) ! i)) 3),
         PyFloat (py_round lib (np_std lib 0 (external_scores ext ms X y cv (environ w) ! i) * 2) 3),
         PyTimedelta us])"
proof (induction ms arbitrary: w l)
  case Nil
  then show ?case by simp
next
  case (Cons m ms)
  from Cons.prems obtain part_l w1 l1 where
    a: "score_and_time lib ext m X y cv w = (Inr part_l, w1)" and
    b: "evaluate_roster lib ext ms X y cv w1 = (Inr l1, w')" and
    c: "l = part_l # l1"
    by (auto split: prod.splits sum.splits)
  from a obtain scores e1 where
    e: "ext m X y cv (environ w) = (Inr scores, e1)"
    by (cases "ext m X y cv (environ w)")
       (auto simp add: score_and_time_unfold split: sum.splits)
  from a e have p: "part_l = [PyFloat (py_round lib (np_mean lib scores) 3),
      PyFloat (py_round lib (np_std lib 0 scores * 2) 3),
      PyTimedelta (timedelta_seconds lib (float_sub lib (clock e1) (clock (environ w))))]"
    and w1: "environ w1 = e1"
    by (auto simp add: score_and_time_unfold)
  have x: "external_scores ext (m # ms) X y cv (environ w) =
      scores # external_scores ext ms X y cv (environ w1)"
    using e w1 by simp
  from Cons.IH [OF b] have ih: "length l1 = length ms"
    "\<forall>i<length ms. \<exists>us. l1 ! i =
        [PyFloat (py_round lib (np_mean lib (external_scores ext ms X y cv (environ w1) ! i)) 3),
         PyFloat (py_round lib (np_std lib 0 (external_scores ext ms X y cv (environ w1) ! i) * 2) 3),
         PyTimedelta us]"
    by simp_all
  have "\<forall>i<length (m # ms). \<exists>us. l ! i =
        [PyFloat (py_round lib (np_mean lib (external_scores ext (m # ms) X y cv (environ w) ! i)) 3),
         PyFloat (py_round lib (np_std lib 0 (external_scores ext (m # ms) X y cv (environ w) ! i) * 2) 3),
         PyTimedelta us]"
  proof (intro allI impI)
    fix i assume "i < length (m # ms)"
    then show "\<exists>us. l ! i =
        [PyFloat (py_round lib (np_mean lib (external_scores ext (m # ms) X y cv (environ w) ! i)) 3),
         PyFloat (py_round lib (np_std lib 0 (external_scores ext (m # ms) X y cv (environ w) ! i) * 2) 3),
         PyTimedelta us]"
      unfolding x c using p ih(2) by (cases i) simp_all
  qed
  with ih(1) c show ?case by simp
qed

lemma ml_benchmark_cells:
  assumes "fst (ml_benchmark lib ext X y cv w) = Inr t"
  shows "benchmark_table t
    \<and> (\<forall>i<5. mean_score t i =
            py_round lib (np_mean lib (external_scores ext roster X y cv (environ w) ! i)) 3
         \<and> score_spread t i =
            py_round lib (np_std lib 0 (external_scores ext roster X y cv (environ w) ! i) * 2) 3
         \<and> 1000 dvd duration t i)"
proof -
  from assms obtain l w' where
    e: "evaluate_roster lib ext roster X y cv w = (Inr l, w')"
    and t: "t = \<lparr>df_index = rows_name, df_columns = columns_name,
                 df_data = map (map to_cell) l\<rparr>"
    by (cases "evaluate_roster lib ext roster X y cv w")
       (auto simp add: ml_benchmark_error_or_table split: sum.splits)
  have n: "length roster = 5" by (simp add: roster_def)
  from evaluate_roster_scores [OF e] n have l: "length l = 5"
    and c: "\<forall>i<5. \<exists>us. l ! i =
        [PyFloat (py_round lib (np_mean lib (external_scores ext roster X y cv (environ w) ! i)) 3),
         PyFloat (py_round lib (np_std lib 0 (external_scores ext roster X y cv (environ w) ! i) * 2) 3),
         PyTimedelta us]"
    by simp_all
  have r: "\<forall>i<5. benchmark_row (df_data t ! i)
         \<and> mean_score t i =
            py_round lib (np_mean lib (external_scores ext roster X y cv (environ w) ! i)) 3
         \<and> score_spread t i =
            py_round lib (np_std lib 0 (external_scores ext roster X y cv (environ w) ! i) * 2) 3
         \<and> 1000 dvd duration t i"
  proof (intro allI impI)
    fix i :: nat assume i: "i < 5"
    with c obtain us where "l ! i =
        [PyFloat (py_round lib (np_mean lib (external_scores ext roster X y cv (environ w) ! i)) 3),
         PyFloat (py_round lib (np_std lib 0 (external_scores ext roster X y cv (environ w) ! i) * 2) 3),
         PyTimedelta us]" by blast
    with i l t show "benchmark_row (df_data t ! i)
         \<and> mean_score t i =
            py_round lib (np_mean lib (external_scores ext roster X y cv (environ w) ! i)) 3
         \<and> score_spread t i =
            py_round lib (np_std lib 0 (external_scores ext roster X y cv (environ w) ! i) * 2) 3
         \<and> 1000 dvd duration t i"
      by (simp add: mean_score_def score_spread_def duration_def)
  qed
  then have "list_all benchmark_row (df_data t)"
    using l t by (simp add: list_all_length)
  with r l t show ?thesis by (simp add: benchmark_table_def)
qed

section \<open>The sum and the average of benchmark tables\<close>

lemma benchmark_row_cases:
  "benchmark_row r \<Longrightarrow> \<exists>m s d. r = [Num m, Num s, TD d]"
  by (induction r rule: benchmark_row.induct) simp_all

lemma benchmark_row_eq:
  "benchmark_row r \<Longrightarrow> r = [Num (row_mean r), Num (row_spread r), TD (row_duration r)]"
  using benchmark_row_cases [of r] by auto

lemma rows_add_benchmark:
  assumes "length as = length bs" and "list_all benchmark_row as" and "list_all benchmark_row bs"
  shows "\<exists>cs. rows_add lib as bs = Some cs \<and> length cs = length as \<and> list_all benchmark_row cs
    \<and> (\<forall>i<length as. row_mean (cs ! i) = float_add lib (row_mean (as ! i)) (row_mean (bs ! i))
          \<and> row_spread (cs ! i) = float_add lib (row_spread (as ! i)) (row_spread (bs ! i))
          \<and> row_duration (cs ! i) = row_duration (as ! i) + row_duration (bs ! i))"
  using assms
proof (induction as bs rule: list_induct2)
  case Nil
  then show ?case by simp
next
  case (Cons a as b bs)
  from Cons.prems obtain m s d m' s' d' where
    a: "a = [Num m, Num s, TD d]" and b: "b = [Num m', Num s', TD d']"
    using benchmark_row_cases [of a] benchmark_row_cases [of b] by auto
  from Cons.IH Cons.prems obtain cs where
    c: "rows_add lib as bs = Some cs" "length cs = length as" "list_all benchmark_row cs"
       "\<forall>i<length as. row_mean (cs ! i) = float_add lib (row_mean (as ! i)) (row_mean (bs ! i))
          \<and> row_spread (cs ! i) = float_add lib (row_spread (as ! i)) (row_spread (bs ! i))
          \<and> row_duration (cs ! i) = row_duration (as ! i) + row_duration (bs ! i)"
    by auto
  let ?c = "[Num (float_add lib m m'), Num (float_add lib s s'), TD (d + d')]"
  have "rows_add lib (a # as) (b # bs) = Some (?c # cs)" using a b c(1) by simp
  moreover have "length (?c # cs) = length (a # as)" using c(2) by simp
  moreover have "list_all benchmark_row (?c # cs)" using c(3) by simp
  moreover have "\<forall>i<length (a # as).
          row_mean ((?c # cs) ! i) = float_add lib (row_mean ((a # as) ! i)) (row_mean ((b # bs) ! i))
          \<and> row_spread ((?c # cs) ! i)
              = float_add lib (row_spread ((a # as) ! i)) (row_spread ((b # bs) ! i))
          \<and> row_duration ((?c # cs) ! i) = row_duration ((a # as) ! i) + row_duration ((b # bs) ! i)"
  proof (intro allI impI)
    fix i assume "i < length (a # as)"
    then show "row_mean ((?c # cs) ! i) = float_add lib (row_mean ((a # as) ! i)) (row_mean ((b # bs) ! i))
          \<and> row_spread ((?c # cs) ! i)
              = float_add lib (row_spread ((a # as) ! i)) (row_spread ((b # bs) ! i))
          \<and> row_duration ((?c # cs) ! i) = row_duration ((a # as) ! i) + row_duration ((b # bs) ! i)"
      using c(4) a b by (cases i) simp_all
  qed
  ultimately show ?case by blast
qed

lemma df_add_benchmark:
  assumes "benchmark_table a" and "benchmark_table b"
  shows "\<exists>c. df_add lib a b = Some c \<and> benchmark_table c
    \<and> (\<forall>i<5. mean_score c i = float_add lib (mean_score a i) (mean_score b i)
          \<and> score_spread c i = float_add lib (score_spread a i) (score_spread b i)
          \<and> duration c i = duration a i + duration b i)"
proof -
  from assms have l: "length (df_data a) = length (df_data b)"
    and la: "list_all benchmark_row (df_data a)" and lb: "list_all benchmark_row (df_data b)"
    and n: "length (df_data a) = 5"
    and ix: "df_index a = df_index b" "df_columns a = df_columns b"
       "df_index a = rows_name" "df_columns a = columns_name"
    by (simp_all add: benchmark_table_def)
  from rows_add_benchmark [OF l la lb, of lib] obtain cs where
    c: "rows_add lib (df_data a) (df_data b) = Some cs" "length cs = length (df_data a)"
       "list_all benchmark_row cs"
       "\<forall>i<length (df_data a).
          row_mean (cs ! i) = float_add lib (row_mean (df_data a ! i)) (row_mean (df_data b ! i))
          \<and> row_spread (cs ! i)
              = float_add lib (row_spread (df_data a ! i)) (row_spread (df_data b ! i))
          \<and> row_duration (cs ! i) = row_duration (df_data a ! i) + row_duration (df_data b ! i)"
    by blast
  let ?c = "\<lparr>df_index = df_index a, df_columns = df_columns a, df_data = cs\<rparr>"
  have "df_add lib a b = Some ?c" using ix c(1) by (simp add: df_add_def)
  moreover have "benchmark_table ?c" using ix c(2,3) n by (simp add: benchmark_table_def)
  moreover have "\<forall>i<5. mean_score ?c i = float_add lib (mean_score a i) (mean_score b i)
          \<and> score_spread ?c i = float_add lib (score_spread a i) (score_spread b i)
          \<and> duration ?c i = duration a i + duration b i"
    using c(4) n by (simp add: mean_score_def score_spread_def duration_def)
  ultimately show ?thesis by blast
qed

lemma df_divide_benchmark:
  assumes "benchmark_table s" and "n \<noteq> 0"
  shows "\<exists>c. df_divide lib s n = Some c \<and> benchmark_table c
    \<and> (\<forall>i<5. mean_score c i = float_div lib (mean_score s i) (of_int n)
          \<and> score_spread c i = float_div lib (score_spread s i) (of_int n)
          \<and> duration c i = truncate_div (duration s i) n)"
proof -
  let ?c = "s\<lparr>df_data := map (map (cell_divide lib n)) (df_data s)\<rparr>"
  have d: "df_divide lib s n = Some ?c" using assms(2) by (simp add: df_divide_def)
  have r: "\<And>r. benchmark_row r \<Longrightarrow> benchmark_row (map (cell_divide lib n) r)
      \<and> row_mean (map (cell_divide lib n) r) = float_div lib (row_mean r) (of_int n)
      \<and> row_spread (map (cell_divide lib n) r) = float_div lib (row_spread r) (of_int n)
      \<and> row_duration (map (cell_divide lib n) r) = truncate_div (row_duration r) n"
  proof -
    fix r assume "benchmark_row r"
    then obtain m sp du where "r = [Num m, Num sp, TD du]"
      using benchmark_row_cases by blast
    then show "benchmark_row (map (cell_divide lib n) r)
      \<and> row_mean (map (cell_divide lib n) r) = float_div lib (row_mean r) (of_int n)
      \<and> row_spread (map (cell_divide lib n) r) = float_div lib (row_spread r) (of_int n)
      \<and> row_duration (map (cell_divide lib n) r) = truncate_div (row_duration r) n" by simp
  qed
  from assms(1) have l: "length (df_data s) = 5" and a: "list_all benchmark_row (df_data s)"
    by (simp_all add: benchmark_table_def)
  have b: "benchmark_table ?c"
    using assms(1) r by (auto simp add: benchmark_table_def list_all_iff)
  have "\<forall>i<5. mean_score ?c i = float_div lib (mean_score s i) (of_int n)
          \<and> score_spread ?c i = float_div lib (score_spread s i) (of_int n)
          \<and> duration ?c i = truncate_div (duration s i) n"
  proof (intro allI impI)
    fix i :: nat assume i: "i < 5"
    with l a have "benchmark_row (df_data s ! i)" by (simp add: list_all_length)
    from r [OF this] i l show "mean_score ?c i = float_div lib (mean_score s i) (of_int n)
          \<and> score_spread ?c i = float_div lib (score_spread s i) (of_int n)
          \<and> duration ?c i = truncate_div (duration s i) n"
      by (simp add: mean_score_def score_spread_def duration_def)
  qed
  with d b show ?thesis by blast
qed

lemma df_benchmark_total_benchmark:
  assumes "benchmark_table t1" and "benchmark_table t2" and "benchmark_table t3"
    and "benchmark_table t4"
  shows "\<exists>total. df_benchmark_total lib t1 t2 t3 t4 = Some total \<and> benchmark_table total
    \<and> (\<forall>i<5. mean_score total i =
            float_mean4 lib (mean_score t1 i) (mean_score t2 i) (mean_score t3 i) (mean_score t4 i)
          \<and> score_spread total i =
            float_mean4 lib (score_spread t1 i) (score_spread t2 i) (score_spread t3 i)
              (score_spread t4 i)
          \<and> duration total i =
            truncate_div (duration t1 i + duration t2 i + duration t3 i + duration t4 i) 4)"
proof -
  from df_add_benchmark [OF assms(1,2), of lib] obtain s12 where
    a: "df_add lib t1 t2 = Some s12" "benchmark_table s12"
       "\<forall>i<5. mean_score s12 i = float_add lib (mean_score t1 i) (mean_score t2 i)
          \<and> score_spread s12 i = float_add lib (score_spread t1 i) (score_spread t2 i)
          \<and> duration s12 i = duration t1 i + duration t2 i"
    by blast
  from df_add_benchmark [OF a(2) assms(3), of lib] obtain s123 where
    b: "df_add lib s12 t3 = Some s123" "benchmark_table s123"
       "\<forall>i<5. mean_score s123 i = float_add lib (mean_score s12 i) (mean_score t3 i)
          \<and> score_spread s123 i = float_add lib (score_spread s12 i) (score_spread t3 i)
          \<and> duration s123 i = duration s12 i + duration t3 i"
    by blast
  from df_add_benchmark [OF b(2) assms(4), of lib] obtain s1234 where
    c: "df_add lib s123 t4 = Some s1234" "benchmark_table s1234"
       "\<forall>i<5. mean_score s1234 i = float_add lib (mean_score s123 i) (mean_score t4 i)
          \<and> score_spread s1234 i = float_add lib (score_spread s123 i) (score_spread t4 i)
          \<and> duration s1234 i = duration s123 i + duration t4 i"
    by blast
  have "(4::int) \<noteq> 0" by simp
  from df_divide_benchmark [OF c(2) this, of lib] obtain total where
    d: "df_divide lib s1234 4 = Some total" "benchmark_table total"
       "\<forall>i<5. mean_score total i = float_div lib (mean_score s1234 i) (of_int 4)
          \<and> score_spread total i = float_div lib (score_spread s1234 i) (of_int 4)
          \<and> duration total i = truncate_div (duration s1234 i) 4"
    by blast
  have "df_benchmark_total lib t1 t2 t3 t4 = Some total"
    using a(1) b(1) c(1) d(1) by (simp add: df_benchmark_total_def)
  moreover have "\<forall>i<5. mean_score total i =
            float_mean4 lib (mean_score t1 i) (mean_score t2 i) (mean_score t3 i) (mean_score t4 i)
          \<and> score_spread total i =
            float_mean4 lib (score_spread t1 i) (score_spread t2 i) (score_spread t3 i)
              (score_spread t4 i)
          \<and> duration total i =
            truncate_div (duration t1 i + duration t2 i + duration t3 i + duration t4 i) 4"
    using a(3) b(3) c(3) d(3) by (simp add: float_mean4_def)
  ultimately show ?thesis using d(2) by blast
qed

section \<open>The concrete runs evaluated\<close>

lemma exact_library_fields [simp]:
  "np_mean exact_library = exact_mean" "np_std exact_library = std_ddof"
  "py_round exact_library = exact_round" "float_sub exact_library a b = a - b"
  "float_add exact_library a b = a + b" "float_div exact_library a b = a / b"
  "timedelta_seconds exact_library = exact_timedelta"
  by (simp_all add: exact_library_def)

lemma exact_library_respects_ranges: "respects_ranges exact_library"
proof -
  have "\<And>s::real. 0 \<le> s \<Longrightarrow> 0 \<le> exact_timedelta s"
  proof -
    fix s :: real assume "0 \<le> s"
    then have "real_of_int 0 \<le> s * 1000000" by simp
    then show "0 \<le> exact_timedelta s" unfolding exact_timedelta_def by (rule rint_ge)
  qed
  then show ?thesis
    by (simp add: respects_ranges_def exact_mean_unit_interval std_ddof_nonneg
        exact_round_nonneg exact_round_le_one)
qed

lemma exact_library_mean4: "mean4_accurate exact_library 0 a b c d"
  by (simp add: mean4_accurate_def float_mean4_def)

lemma exact_mean_half_one: "exact_mean [1 / 2, 1] = 3 / 4"
  by (simp add: exact_mean_def)

lemma exact_timedelta_one: "exact_timedelta 1 = 1000000"
  by (simp add: exact_timedelta_def)

lemma constant_validator_run:
  "score_and_time exact_library (constant_validator [1 / 2, 1] elapsed) model X y cv w =
     (Inr [PyFloat (3 / 4), PyFloat (1 / 2), PyTimedelta (exact_timedelta elapsed)],
      w\<lparr>environ := (environ w)\<lparr>clock := clock (environ w) + elapsed\<rparr>,
        cv_log := cv_log w @ [(model, X, y, cv)]\<rparr>)"
  by (simp add: score_and_time_unfold constant_validator_def std_half_one exact_mean_half_one
      exact_round_binary)

lemma constant_validator_later:
  "constant_validator scores t m X y cv (later a) = (Inr scores, later (a + t))"
  by (simp add: constant_validator_def later_def)

lemma constant_validator_start:
  "constant_validator scores t m X y cv (environ start_world) = (Inr scores, later t)"
  by (simp add: constant_validator_def later_def)

lemma failing_validator_good:
  "model \<noteq> bad \<Longrightarrow>
     score_and_time exact_library (failing_validator bad err) model X y cv w =
       (Inr [PyFloat (3 / 4), PyFloat (1 / 2), PyTimedelta 1000000],
        w\<lparr>environ := (environ w)\<lparr>clock := clock (environ w) + 1\<rparr>,
          cv_log := cv_log w @ [(model, X, y, cv)]\<rparr>)"
  by (simp add: score_and_time_unfold failing_validator_def std_half_one exact_mean_half_one
      exact_round_binary exact_timedelta_one)

lemma failing_validator_bad:
  "score_and_time exact_library (failing_validator bad err) bad X y cv w =
       (Inl err,
        w\<lparr>environ := (environ w)\<lparr>clock := clock (environ w) + 1 / 4\<rparr>,
          cv_log := cv_log w @ [(bad, X, y, cv)]\<rparr>)"
  by (simp add: score_and_time_unfold failing_validator_def)

lemma uniform_table_benchmark: "benchmark_table (uniform_table m s d)"
  by (simp add: benchmark_table_def uniform_table_def list_all_iff)

lemma uniform_table_cells:
  "i < 5 \<Longrightarrow> mean_score (uniform_table m s d) i = m \<and> score_spread (uniform_table m s d) i = s
     \<and> duration (uniform_table m s d) i = d"
  by (simp add: mean_score_def score_spread_def duration_def uniform_table_def)

lemma constant_validator_table:
  "fst (ml_benchmark exact_library (constant_validator scores elapsed) X y cv w) =
     Inr (uniform_table (exact_round (exact_mean scores) 3) (exact_round (std_ddof 0 scores * 2) 3)
            (1000 * exact_timedelta elapsed))"
  by (simp add: ml_benchmark_error_or_table roster_def score_and_time_unfold
      constant_validator_def uniform_table_def eval_nat_numeral)

lemma external_scores_constant:
  "i < 5 \<Longrightarrow> external_scores (constant_validator scores elapsed) roster X y cv e ! i = scores"
  by (simp add: roster_def constant_validator_def nth_Cons' eval_nat_numeral)

lemma df_benchmark_total_uniform:
  "df_benchmark_total exact_library (uniform_table m1 s1 d1) (uniform_table m2 s2 d2)
       (uniform_table m3 s3 d3) (uniform_table m4 s4 d4) =
     Some (uniform_table ((m1 + m2 + m3 + m4) / 4) ((s1 + s2 + s3 + s4) / 4)
             (truncate_div (d1 + d2 + d3 + d4) 4))"
  by (simp add: df_benchmark_total_def uniform_table_def df_add_def df_divide_def
      eval_nat_numeral)

lemma four_runs:
  "fst (ml_benchmark exact_library (constant_validator [1 / 2, 1] (1 / 4)) 0 0 2 start_world)
     = Inr (uniform_table (3 / 4) (1 / 2) 250000000)"
  "fst (ml_benchmark exact_library (constant_validator [3 / 4, 1] (1 / 2)) 0 0 2 start_world)
     = Inr (uniform_table (7 / 8) (1 / 4) 500000000)"
  "fst (ml_benchmark exact_library (constant_validator [1, 1] 1) 0 0 2 start_world)
     = Inr (uniform_table 1 0 1000000000)"
  "fst (ml_benchmark exact_library (constant_validator [0, 1] 2) 0 0 2 start_world)
     = Inr (uniform_table (1 / 2) 1 2000000000)"
  unfolding constant_validator_table
  by (simp_all add: exact_mean_def std_half_one std_three_quarters_one std_constant std_zero_one
      exact_round_binary exact_timedelta_def)

lemma rounded_up_table:
  "fst (ml_benchmark exact_library (constant_validator [1791 / 2048, 1791 / 2048] 1) 0 0 2
          start_world)
     = Inr (uniform_table (7 / 8) 0 1000000000)"
  unfolding constant_validator_table
  by (simp add: exact_mean_def std_constant exact_round_up exact_round_binary exact_timedelta_one)

lemma half_one_table:
  "fst (ml_benchmark exact_library (constant_validator [1 / 2, 1] 1) 0 0 2 start_world)
     = Inr (uniform_table (3 / 4) (1 / 2) 1000000000)"
  unfolding constant_validator_table
  by (simp add: exact_mean_half_one std_half_one exact_round_binary exact_timedelta_one)

lemma rounded_example_total:
  "df_benchmark_total exact_library (uniform_table (7 / 8) 0 1000000000)
      (uniform_table (7 / 8) 0 1000000000) (uniform_table (7 / 8) 0 1000000000)
      (uniform_table (3 / 4) (1 / 2) 1000000000)
     = Some (uniform_table (27 / 32) (1 / 8) 1000000000)"
proof -
  have "truncate_div (1000000000 + 1000000000 + 1000000000 + 1000000000) 4 = 1000000000"
    by (simp add: truncate_div_def)
  then show ?thesis unfolding df_benchmark_total_uniform by simp
qed

lemma rounded_raw_mean:
  "exact_round (exact_mean [1791 / 2048, 1791 / 2048, 1791 / 2048, 1791 / 2048,
                            1791 / 2048, 1791 / 2048, 1 / 2, 1]) 3 = 843 / 1000"
proof -
  have "rint (13818 * 1000 / 16384 :: real) = 843" by (rule rint_eqI) simp_all
  then show ?thesis by (simp add: exact_round_def exact_mean_def)
qed

section \<open>C1: the score spread\<close>

text \<open>
  C1 (amended). When the external cross-validator returns a non-empty array of fold scores,
  the second entry of the list \<^verbatim>\<open>score_and_time\<close> returns is \<^verbatim>\<open>round(scores.std()*2, 3)\<close>
  with NumPy's default \<^verbatim>\<open>ddof=0\<close>: two times the population standard deviation of the
  fold scores (squared deviations divided by \<open>n\<close>), rounded to 3 decimal digits. In
  \<^verbatim>\<open>float64\<close> terms: if NumPy's \<^verbatim>\<open>std\<close> is within \<open>delta\<close> of the documented formula and
  \<^verbatim>\<open>round\<close> rounds it to 3 digits up to \<open>rho\<close>, the spread is two times the population
  standard deviation rounded to 3 digits up to \<open>rho + 2 * delta\<close>. The population standard
  deviation is the sample standard deviation scaled by \<open>sqrt ((n - 1) / n)\<close>.
\<close>

theorem score_and_time_spread:
  assumes "ext model X y cv (environ w) = (Inr scores, e')" and "scores \<noteq> []"
    and "\<bar>np_std lib 0 scores - std_ddof 0 scores\<bar> \<le> delta"
    and "rounds_to_3_digits rho (np_std lib 0 scores * 2) (py_round lib (np_std lib 0 scores * 2) 3)"
  shows "\<exists>mean spread elapsed.
      fst (score_and_time lib ext model X y cv w) = Inr [mean, PyFloat spread, elapsed]
    \<and> spread = py_round lib (np_std lib 0 scores * 2) 3
    \<and> rounds_to_3_digits (rho + 2 * delta) (2 * population_std scores) spread
    \<and> population_std scores =
        sqrt ((real (length scores) - 1) / real (length scores)) * sample_std scores"
proof -
  note r = score_and_time_returns [of ext model X y cv w scores e' lib, OF assms(1)]
  let ?s = "py_round lib (np_std lib 0 scores * 2) 3"
  have "\<bar>np_std lib 0 scores * 2 - 2 * population_std scores\<bar> \<le> 2 * delta"
    using assms(3) by (simp add: population_std_def)
  with assms(4) have "rounds_to_3_digits (rho + 2 * delta) (2 * population_std scores) ?s"
    by (rule rounds_to_3_digits_shift)
  moreover have "fst (score_and_time lib ext model X y cv w) =
      Inr [PyFloat (py_round lib (np_mean lib scores) 3), PyFloat ?s,
           PyTimedelta (timedelta_seconds lib (float_sub lib (clock e') (clock (environ w))))]"
    by (simp add: r)
  ultimately show ?thesis using population_sample_std [of scores] by blast
qed

text \<open>
  C1 as stated fails: for the fold scores 0.5 and 1.0, where every \<^verbatim>\<open>float64\<close> operation
  of the reduction is exact, the code returns the spread 0.5, while two times their sample
  standard deviation, rounded to 3 digits, is 0.707; 0.5 is no rounding of it, not even
  with a tolerance of one thousandth.
\<close>

theorem score_and_time_spread_counterexample:
  "fst (score_and_time exact_library (constant_validator [1 / 2, 1] 1)
          (DecisionTreeClassifier None (Some 0)) 0 0 2 start_world)
     = Inr [PyFloat (3 / 4), PyFloat (1 / 2), PyTimedelta 1000000]
   \<and> exact_round (2 * sample_std [1 / 2, 1]) 3 = 707 / 1000
   \<and> (1 / 2 :: real) \<noteq> 707 / 1000
   \<and> \<not> rounds_to_3_digits (1 / 1000) (2 * sample_std [1 / 2, 1]) (1 / 2)"
proof -
  note b = sqrt_eighth_bounds
  have "rint (2 * sqrt (1 / 8) * 1000) = 707"
    using b by (intro rint_eqI) simp_all
  then have e: "exact_round (2 * sample_std [1 / 2, 1]) 3 = 707 / 1000"
    by (simp add: exact_round_def sample_std_half_one)
  have n: "\<not> rounds_to_3_digits (1 / 1000) (2 * sample_std [1 / 2, 1]) (1 / 2)"
  proof
    assume "rounds_to_3_digits (1 / 1000) (2 * sample_std [1 / 2, 1]) (1 / 2)"
    then obtain k :: int where
      "\<bar>1 / 2 - real_of_int k / 1000\<bar> \<le> 1 / 1000"
      "\<bar>real_of_int k / 1000 - 2 * sqrt (1 / 8)\<bar> \<le> 1 / 2000 + 1 / 1000"
      unfolding rounds_to_3_digits_def sample_std_half_one by blast
    with b show False by linarith
  qed
  from e n show ?thesis
    by (simp add: constant_validator_run exact_timedelta_one)
qed

text \<open>The same run, for the amended statement.\<close>

theorem score_and_time_spread_witness:
  "constant_validator [1 / 2, 1] 1 (DecisionTreeClassifier None (Some 0)) 0 0 2
       (environ start_world) = (Inr [1 / 2, 1], later 1)
   \<and> [1 / 2, 1 :: real] \<noteq> []
   \<and> \<bar>np_std exact_library 0 [1 / 2, 1] - std_ddof 0 [1 / 2, 1]\<bar> \<le> 0
   \<and> rounds_to_3_digits 0 (np_std exact_library 0 [1 / 2, 1] * 2)
        (py_round exact_library (np_std exact_library 0 [1 / 2, 1] * 2) 3)
   \<and> (\<exists>mean elapsed. fst (score_and_time exact_library (constant_validator [1 / 2, 1] 1)
          (DecisionTreeClassifier None (Some 0)) 0 0 2 start_world) =
        Inr [mean, PyFloat (1 / 2), elapsed])
   \<and> rounds_to_3_digits 0 (2 * population_std [1 / 2, 1]) (1 / 2)
   \<and> population_std [1 / 2, 1] =
        sqrt ((real (length [1 / 2, 1 :: real]) - 1) / real (length [1 / 2, 1 :: real]))
          * sample_std [1 / 2, 1]"
proof -
  let ?ext = "constant_validator [1 / 2, 1] 1"
  let ?m = "DecisionTreeClassifier None (Some 0)"
  have h: "?ext ?m 0 0 2 (environ start_world) = (Inr [1 / 2, 1], later 1)"
    by (rule constant_validator_start)
  have n: "[1 / 2, 1 :: real] \<noteq> []" by simp
  have a: "\<bar>np_std exact_library 0 [1 / 2, 1] - std_ddof 0 [1 / 2, 1]\<bar> \<le> 0" by simp
  have b: "rounds_to_3_digits 0 (np_std exact_library 0 [1 / 2, 1] * 2)
        (py_round exact_library (np_std exact_library 0 [1 / 2, 1] * 2) 3)"
    by (simp add: exact_round_3_digits)
  from score_and_time_spread [where ext = ?ext and model = ?m and X = 0 and y = 0
      and cv = 2 and w = start_world and scores = "[1 / 2, 1]" and e' = "later 1"
      and lib = exact_library and delta = 0 and rho = 0, OF h n a b]
  obtain mean spread elapsed where
    r: "fst (score_and_time exact_library ?ext ?m 0 0 2 start_world)
          = Inr [mean, PyFloat spread, elapsed]"
    and s: "spread = py_round exact_library (np_std exact_library 0 [1 / 2, 1] * 2) 3"
    and s3: "rounds_to_3_digits (0 + 2 * 0) (2 * population_std [1 / 2, 1]) spread"
    and ps: "population_std [1 / 2, 1] =
        sqrt ((real (length [1 / 2, 1 :: real]) - 1) / real (length [1 / 2, 1 :: real]))
          * sample_std [1 / 2, 1]"
    by blast
  from s have s': "spread = 1 / 2" by (simp add: std_half_one exact_round_binary)
  from r s' have "\<exists>mean elapsed. fst (score_and_time exact_library ?ext ?m 0 0 2 start_world) =
        Inr [mean, PyFloat (1 / 2), elapsed]" by blast
  moreover from s3 s' have "rounds_to_3_digits 0 (2 * population_std [1 / 2, 1]) (1 / 2)" by simp
  ultimately show ?thesis using h n a b ps by blast
qed

section \<open>C2: repeated runs\<close>

text \<open>
  C2 (the code departs from it). Four of the five roster entries are built with
  \<^verbatim>\<open>random_state=0\<close>; the fourth, \<^verbatim>\<open>GradientBoostingClassifier(n_estimators=50,
  max_depth=2)\<close>, is built without a seed, so it draws from the global random generator.
  With a cross-validator that honours seeds, two runs of \<^verbatim>\<open>ml_benchmark\<close> on the same
  dataset and fold count that start from different states of the global generator agree on
  the four seeded rows and differ in the mean score and the score spread of the
  \<^verbatim>\<open>GradientBoostingClassifier\<close> row.
\<close>

theorem ml_benchmark_unseeded_gradient_boosting:
  "random_state (roster ! 3) = None
   \<and> matrices (environ (with_rng 1 start_world)) 0 = matrices (environ start_world) 0
   \<and> vectors (environ (with_rng 1 start_world)) 0 = vectors (environ start_world) 0
   \<and> fst (ml_benchmark exact_library seeded_validator 0 0 2 start_world) =
       Inr \<lparr>df_index = rows_name, df_columns = columns_name,
            df_data = [[Num (3 / 4), Num (1 / 2), TD 1000000000],
                       [Num (3 / 4), Num (1 / 2), TD 1000000000],
                       [Num (3 / 4), Num (1 / 2), TD 1000000000],
                       [Num (1 / 2), Num 1, TD 1000000000],
                       [Num (3 / 4), Num (1 / 2), TD 1000000000]]\<rparr>
   \<and> fst (ml_benchmark exact_library seeded_validator 0 0 2 (with_rng 1 start_world)) =
       Inr \<lparr>df_index = rows_name, df_columns = columns_name,
            df_data = [[Num (3 / 4), Num (1 / 2), TD 1000000000],
                       [Num (3 / 4), Num (1 / 2), TD 1000000000],
                       [Num (3 / 4), Num (1 / 2), TD 1000000000],
                       [Num 1, Num 0, TD 1000000000],
                       [Num (3 / 4), Num (1 / 2), TD 1000000000]]\<rparr>"
proof -
  have n: "exact_mean [0, 1] = 1 / 2" "exact_mean [1, 1] = 1" by (simp_all add: exact_mean_def)
  show ?thesis
    by (simp add: ml_benchmark_error_or_table roster_def score_and_time_unfold
        seeded_validator_def with_rng_def start_world_def exact_timedelta_one
        exact_mean_half_one std_half_one std_zero_one std_constant exact_round_binary n)
qed

section \<open>C3: five rows and three columns\<close>

text \<open>
  C3. For every dataset and fold count for which the five evaluations succeed,
  \<^verbatim>\<open>ml_benchmark\<close> returns a table with exactly five rows, keyed by the five fixed and
  distinct classifier names, and exactly three named columns (mean of scores, variance of
  scores, processing time), every row holding three cells. Nothing in the dataset can add,
  remove or merge a row.
\<close>

theorem ml_benchmark_five_rows_three_columns:
  assumes "roster = [m1, m2, m3, m4, m5]"
    and "ext m1 X y cv (environ w) = (Inr s1, e1)"
    and "ext m2 X y cv e1 = (Inr s2, e2)"
    and "ext m3 X y cv e2 = (Inr s3, e3)"
    and "ext m4 X y cv e3 = (Inr s4, e4)"
    and "ext m5 X y cv e4 = (Inr s5, e5)"
  shows "\<exists>df. fst (ml_benchmark lib ext X y cv w) = Inr df
    \<and> df_index df = [''DecisionTreeClassifier'', ''RandomForestClassifier'',
                      ''AdaBoostClassifier'', ''GradientBoostingClassifier'', ''XGBoost'']
    \<and> distinct (df_index df)
    \<and> length (df_data df) = 5
    \<and> df_columns df = [''Approx. mean of scores'', ''Approx. variance of scores'',
                        ''Processing time'']
    \<and> list_all (\<lambda>r. length r = 3) (df_data df)"
proof -
  from evaluate_roster_chain [where lib = lib and ext = ext and w = w and X = X and y = y and cv = cv
      and ?m1.0 = m1 and ?m2.0 = m2 and ?m3.0 = m3 and ?m4.0 = m4 and ?m5.0 = m5
      and ?s1.0 = s1 and ?s2.0 = s2 and ?s3.0 = s3 and ?s4.0 = s4 and ?s5.0 = s5
      and ?e1.0 = e1 and ?e2.0 = e2 and ?e3.0 = e3 and ?e4.0 = e4 and ?e5.0 = e5,
      OF assms(2-6)]
  obtain l w5 where c: "evaluate_roster lib ext roster X y cv w = (Inr l, w5)"
    unfolding assms(1) by blast
  from evaluate_roster_rows [OF c]
  have "length l = 5" and "list_all (\<lambda>r. length r = 3) l"
    by (simp_all add: assms(1))
  then have "length (map (map to_cell) l) = 5"
    and "list_all (\<lambda>r. length r = 3) (map (map to_cell) l)"
    by (simp_all add: list_all_iff)
  with c show ?thesis
    by (simp add: ml_benchmark_error_or_table rows_name_def columns_name_def)
qed

theorem ml_benchmark_five_rows_three_columns_witness:
  "roster = [DecisionTreeClassifier None (Some 0),
             RandomForestClassifier 50 (Some 2) (Some 0),
             AdaBoostClassifier (DecisionTreeClassifier (Some 2) None) 50 ''SAMME'' (Some 0),
             GradientBoostingClassifier 50 (Some 2) None,
             XGBClassifier 50 (Some 2) (Some 0)]
   \<and> constant_validator [1 / 2, 1] 1 (DecisionTreeClassifier None (Some 0)) 0 0 2
        (environ start_world) = (Inr [1 / 2, 1], later 1)
   \<and> constant_validator [1 / 2, 1] 1 (RandomForestClassifier 50 (Some 2) (Some 0)) 0 0 2
        (later 1) = (Inr [1 / 2, 1], later 2)
   \<and> constant_validator [1 / 2, 1] 1
        (AdaBoostClassifier (DecisionTreeClassifier (Some 2) None) 50 ''SAMME'' (Some 0)) 0 0 2
        (later 2) = (Inr [1 / 2, 1], later 3)
   \<and> constant_validator [1 / 2, 1] 1 (GradientBoostingClassifier 50 (Some 2) None) 0 0 2
        (later 3) = (Inr [1 / 2, 1], later 4)
   \<and> constant_validator [1 / 2, 1] 1 (XGBClassifier 50 (Some 2) (Some 0)) 0 0 2
        (later 4) = (Inr [1 / 2, 1], later 5)
   \<and> (\<exists>df. fst (ml_benchmark exact_library (constant_validator [1 / 2, 1] 1) 0 0 2 start_world) = Inr df
      \<and> df_index df = [''DecisionTreeClassifier'', ''RandomForestClassifier'',
                        ''AdaBoostClassifier'', ''GradientBoostingClassifier'', ''XGBoost'']
      \<and> distinct (df_index df)
      \<and> length (df_data df) = 5
      \<and> df_columns df = [''Approx. mean of scores'', ''Approx. variance of scores'',
                          ''Processing time'']
      \<and> list_all (\<lambda>r. length r = 3) (df_data df))"
proof -
  let ?ext = "constant_validator [1 / 2, 1] 1"
  let ?m1 = "DecisionTreeClassifier None (Some 0)"
  let ?m2 = "RandomForestClassifier 50 (Some 2) (Some 0)"
  let ?m3 = "AdaBoostClassifier (DecisionTreeClassifier (Some 2) None) 50 ''SAMME'' (Some 0)"
  let ?m4 = "GradientBoostingClassifier 50 (Some 2) None"
  let ?m5 = "XGBClassifier 50 (Some 2) (Some 0)"
  have r: "roster = [?m1, ?m2, ?m3, ?m4, ?m5]" by (simp add: roster_def)
  have h1: "?ext ?m1 0 0 2 (environ start_world) = (Inr [1 / 2, 1], later 1)"
    by (rule constant_validator_start)
  have h2: "?ext ?m2 0 0 2 (later 1) = (Inr [1 / 2, 1], later 2)"
    using constant_validator_later [of "[1 / 2, 1]" 1 ?m2 0 0 2 1] by simp
  have h3: "?ext ?m3 0 0 2 (later 2) = (Inr [1 / 2, 1], later 3)"
    using constant_validator_later [of "[1 / 2, 1]" 1 ?m3 0 0 2 2] by simp
  have h4: "?ext ?m4 0 0 2 (later 3) = (Inr [1 / 2, 1], later 4)"
    using constant_validator_later [of "[1 / 2, 1]" 1 ?m4 0 0 2 3] by simp
  have h5: "?ext ?m5 0 0 2 (later 4) = (Inr [1 / 2, 1], later 5)"
    using constant_validator_later [of "[1 / 2, 1]" 1 ?m5 0 0 2 4] by simp
  from ml_benchmark_five_rows_three_columns [where lib = exact_library and ext = ?ext and w = start_world and X = 0
      and y = 0 and cv = 2
      and ?m1.0 = ?m1 and ?m2.0 = ?m2 and ?m3.0 = ?m3 and ?m4.0 = ?m4 and ?m5.0 = ?m5
      and ?s1.0 = "[1 / 2, 1]" and ?s2.0 = "[1 / 2, 1]" and ?s3.0 = "[1 / 2, 1]"
      and ?s4.0 = "[1 / 2, 1]" and ?s5.0 = "[1 / 2, 1]"
      and ?e1.0 = "later 1" and ?e2.0 = "later 2" and ?e3.0 = "later 3" and ?e4.0 = "later 4"
      and ?e5.0 = "later 5", OF r h1 h2 h3 h4 h5]
  show ?thesis using r h1 h2 h3 h4 h5 by blast
qed

section \<open>C4: the mean score and the duration\<close>

text \<open>
  C4. When the external cross-validator returns a non-empty array of fold scores, the first
  entry of the list \<^verbatim>\<open>score_and_time\<close> returns is \<^verbatim>\<open>round(scores.mean(), 3)\<close>, the
  arithmetic mean of the fold scores rounded to 3 decimal digits, and the third entry is the
  elapsed-time value \<^verbatim>\<open>timedelta(seconds=t_stop-t_start)\<close> of the clock read after the
  cross-validation call minus the clock read before it. In \<^verbatim>\<open>float64\<close> terms: if NumPy's
  mean is within \<open>delta\<close> of the sum divided by the count and \<^verbatim>\<open>round\<close> rounds it to 3
  digits up to \<open>rho\<close>, the mean score is the arithmetic mean rounded to 3 digits up to
  \<open>rho + delta\<close>; if the subtraction is within \<open>sigma\<close> and the \<^verbatim>\<open>timedelta\<close> keeps its
  argument to the microsecond up to \<open>tau\<close>, the duration is the difference of the two
  timestamps to the microsecond, up to \<open>tau + sigma\<close>.
\<close>

theorem score_and_time_mean_and_duration:
  assumes "ext model X y cv (environ w) = (Inr scores, e')" and "scores \<noteq> []"
    and "\<bar>np_mean lib scores - sum_list scores / real (length scores)\<bar> \<le> delta"
    and "rounds_to_3_digits rho (np_mean lib scores) (py_round lib (np_mean lib scores) 3)"
    and "\<bar>float_sub lib (clock e') (clock (environ w)) - (clock e' - clock (environ w))\<bar> \<le> sigma"
    and "\<bar>real_of_int (timedelta_seconds lib (float_sub lib (clock e') (clock (environ w)))) / 1000000
          - float_sub lib (clock e') (clock (environ w))\<bar> \<le> 1 / 2000000 + tau"
  shows "\<exists>mean spread elapsed.
      fst (score_and_time lib ext model X y cv w) = Inr [PyFloat mean, spread, PyTimedelta elapsed]
    \<and> mean = py_round lib (np_mean lib scores) 3
    \<and> rounds_to_3_digits (rho + delta) (sum_list scores / real (length scores)) mean
    \<and> elapsed = timedelta_seconds lib
        (float_sub lib (process_time (snd (score_and_time lib ext model X y cv w)))
           (process_time w))
    \<and> \<bar>real_of_int elapsed / 1000000
         - (process_time (snd (score_and_time lib ext model X y cv w)) - process_time w)\<bar>
        \<le> 1 / 2000000 + tau + sigma"
proof -
  note r = score_and_time_returns [of ext model X y cv w scores e' lib, OF assms(1)]
  have p: "process_time (snd (score_and_time lib ext model X y cv w)) = clock e'"
    "process_time w = clock (environ w)"
    by (simp_all add: r process_time_def)
  let ?m = "py_round lib (np_mean lib scores) 3"
  let ?d = "timedelta_seconds lib (float_sub lib (clock e') (clock (environ w)))"
  have a: "rounds_to_3_digits (rho + delta) (sum_list scores / real (length scores)) ?m"
    using assms(4,3) by (rule rounds_to_3_digits_shift)
  have b: "\<bar>real_of_int ?d / 1000000 - (clock e' - clock (environ w))\<bar>
      \<le> 1 / 2000000 + tau + sigma"
    using assms(5,6) by linarith
  have "fst (score_and_time lib ext model X y cv w) =
      Inr [PyFloat ?m, PyFloat (py_round lib (np_std lib 0 scores * 2) 3), PyTimedelta ?d]"
    by (simp add: r)
  with a b show ?thesis unfolding p by blast
qed

text \<open>A run with the fold scores 0.5 and 1.0 that takes 2.25 seconds.\<close>

theorem score_and_time_mean_and_duration_witness:
  "constant_validator [1 / 2, 1] (9 / 4) (DecisionTreeClassifier None (Some 0)) 0 0 2
       (environ start_world) = (Inr [1 / 2, 1], later (9 / 4))
   \<and> [1 / 2, 1 :: real] \<noteq> []
   \<and> \<bar>np_mean exact_library [1 / 2, 1] - sum_list [1 / 2, 1] / real (length [1 / 2, 1 :: real])\<bar> \<le> 0
   \<and> rounds_to_3_digits 0 (np_mean exact_library [1 / 2, 1])
        (py_round exact_library (np_mean exact_library [1 / 2, 1]) 3)
   \<and> (\<exists>spread. fst (score_and_time exact_library (constant_validator [1 / 2, 1] (9 / 4))
          (DecisionTreeClassifier None (Some 0)) 0 0 2 start_world) =
        Inr [PyFloat (3 / 4), spread, PyTimedelta 2250000])
   \<and> rounds_to_3_digits 0 (3 / 4) (3 / 4)
   \<and> \<bar>real_of_int 2250000 / 1000000 - (11 / 4 - 1 / 2 :: real)\<bar> \<le> 1 / 2000000"
proof -
  let ?ext = "constant_validator [1 / 2, 1] (9 / 4)"
  let ?m = "DecisionTreeClassifier None (Some 0)"
  have h: "?ext ?m 0 0 2 (environ start_world) = (Inr [1 / 2, 1], later (9 / 4))"
    by (rule constant_validator_start)
  have n: "[1 / 2, 1 :: real] \<noteq> []" by simp
  have c: "clock (later (9 / 4)) = 11 / 4" "clock (environ start_world) = 1 / 2"
    by (simp_all add: later_def start_world_def)
  have t: "exact_timedelta (9 / 4) = 2250000"
    by (simp add: exact_timedelta_def)
  have a: "\<bar>np_mean exact_library [1 / 2, 1]
      - sum_list [1 / 2, 1] / real (length [1 / 2, 1 :: real])\<bar> \<le> 0"
    by (simp add: exact_mean_def)
  have b: "rounds_to_3_digits 0 (np_mean exact_library [1 / 2, 1])
        (py_round exact_library (np_mean exact_library [1 / 2, 1]) 3)"
    by (simp add: exact_round_3_digits)
  have s: "\<bar>float_sub exact_library (clock (later (9 / 4))) (clock (environ start_world))
      - (clock (later (9 / 4)) - clock (environ start_world))\<bar> \<le> 0"
    by simp
  have u: "\<bar>real_of_int (timedelta_seconds exact_library
        (float_sub exact_library (clock (later (9 / 4))) (clock (environ start_world)))) / 1000000
      - float_sub exact_library (clock (later (9 / 4))) (clock (environ start_world))\<bar>
      \<le> 1 / 2000000 + 0"
    by (simp add: c t)
  from score_and_time_mean_and_duration [where ext = ?ext and model = ?m and X = 0 and y = 0
      and cv = 2 and w = start_world and scores = "[1 / 2, 1]" and e' = "later (9 / 4)"
      and lib = exact_library and delta = 0 and rho = 0 and sigma = 0 and tau = 0,
      OF h n a b s u]
  obtain mean spread elapsed where
    r: "fst (score_and_time exact_library ?ext ?m 0 0 2 start_world)
          = Inr [PyFloat mean, spread, PyTimedelta elapsed]"
    and m: "mean = py_round exact_library (np_mean exact_library [1 / 2, 1]) 3"
    and m3: "rounds_to_3_digits (0 + 0) (sum_list [1 / 2, 1] / real (length [1 / 2, 1 :: real])) mean"
    and e: "elapsed = timedelta_seconds exact_library
        (float_sub exact_library (process_time (snd (score_and_time exact_library ?ext ?m 0 0 2 start_world)))
           (process_time start_world))"
    and d: "\<bar>real_of_int elapsed / 1000000
         - (process_time (snd (score_and_time exact_library ?ext ?m 0 0 2 start_world))
            - process_time start_world)\<bar> \<le> 1 / 2000000 + 0 + 0"
    by blast
  have pt: "process_time (snd (score_and_time exact_library ?ext ?m 0 0 2 start_world)) = 11 / 4"
    "process_time start_world = 1 / 2"
    by (simp_all add: constant_validator_run process_time_def start_world_def)
  from m have m': "mean = 3 / 4" by (simp add: exact_mean_half_one exact_round_binary)
  from e have e': "elapsed = 2250000" unfolding pt by (simp add: t)
  from r m' e' have "\<exists>spread. fst (score_and_time exact_library ?ext ?m 0 0 2 start_world) =
        Inr [PyFloat (3 / 4), spread, PyTimedelta 2250000]" by blast
  moreover from m3 m' have "rounds_to_3_digits 0 (3 / 4) (3 / 4)" by simp
  moreover from d e' pt have "\<bar>real_of_int 2250000 / 1000000 - (11 / 4 - 1 / 2 :: real)\<bar> \<le> 1 / 2000000"
    by simp
  ultimately show ?thesis using h n a b by blast
qed

section \<open>C5: the ranges of the three results\<close>

text \<open>
  C5. When the external cross-validator returns a non-empty array of fold scores, each in
  \<open>[0, 1]\<close>, and the process clock has not gone backwards during the call,
  \<^verbatim>\<open>score_and_time\<close> returns a mean score in \<open>[0, 1]\<close>, a non-negative score spread and a
  non-negative duration: with every numeric library that keeps the order of the reals as
  \<^verbatim>\<open>float64\<close> does, and with the exact library.
\<close>

theorem score_and_time_ranges:
  assumes "ext model X y cv (environ w) = (Inr scores, e')"
    and "scores \<noteq> []"
    and "\<forall>s\<in>set scores. 0 \<le> s \<and> s \<le> 1"
    and "clock (environ w) \<le> clock e'"
  shows "(respects_ranges lib \<longrightarrow>
      (\<exists>mean_score score_spread duration.
        fst (score_and_time lib ext model X y cv w) =
          Inr [PyFloat mean_score, PyFloat score_spread, PyTimedelta duration]
        \<and> 0 \<le> mean_score \<and> mean_score \<le> 1 \<and> 0 \<le> score_spread \<and> 0 \<le> duration))
    \<and> (\<exists>mean_score score_spread duration.
        fst (score_and_time exact_library ext model X y cv w) =
          Inr [PyFloat mean_score, PyFloat score_spread, PyTimedelta duration]
        \<and> 0 \<le> mean_score \<and> mean_score \<le> 1 \<and> 0 \<le> score_spread \<and> 0 \<le> duration)"
proof (intro conjI impI)
  assume "respects_ranges lib"
  with assms show "\<exists>mean_score score_spread duration.
        fst (score_and_time lib ext model X y cv w) =
          Inr [PyFloat mean_score, PyFloat score_spread, PyTimedelta duration]
        \<and> 0 \<le> mean_score \<and> mean_score \<le> 1 \<and> 0 \<le> score_spread \<and> 0 \<le> duration"
    by (rule score_and_time_ranges_general)
next
  from assms exact_library_respects_ranges show "\<exists>mean_score score_spread duration.
        fst (score_and_time exact_library ext model X y cv w) =
          Inr [PyFloat mean_score, PyFloat score_spread, PyTimedelta duration]
        \<and> 0 \<le> mean_score \<and> mean_score \<le> 1 \<and> 0 \<le> score_spread \<and> 0 \<le> duration"
    by (rule score_and_time_ranges_general)
qed

text \<open>A run with the fold scores 0.5 and 1.0 that takes one second.\<close>

theorem score_and_time_ranges_witness:
  "constant_validator [1 / 2, 1] 1 (DecisionTreeClassifier None (Some 0)) 0 0 2
       (environ start_world) = (Inr [1 / 2, 1], later 1)
   \<and> [1 / 2, 1 :: real] \<noteq> []
   \<and> list_all (\<lambda>s. 0 \<le> s \<and> s \<le> 1) [1 / 2, 1 :: real]
   \<and> clock (environ start_world) \<le> clock (later 1)
   \<and> respects_ranges exact_library
   \<and> (\<exists>mean_score score_spread duration.
        fst (score_and_time exact_library (constant_validator [1 / 2, 1] 1)
               (DecisionTreeClassifier None (Some 0)) 0 0 2 start_world) =
          Inr [PyFloat mean_score, PyFloat score_spread, PyTimedelta duration]
      \<and> 0 \<le> mean_score \<and> mean_score \<le> 1 \<and> 0 \<le> score_spread \<and> 0 \<le> duration)"
proof -
  have h: "constant_validator [1 / 2, 1] 1 (DecisionTreeClassifier None (Some 0)) 0 0 2
       (environ start_world) = (Inr [1 / 2, 1], later 1)"
    by (rule constant_validator_start)
  have n: "[1 / 2, 1 :: real] \<noteq> []" by simp
  have b: "\<forall>s\<in>set [1 / 2, 1 :: real]. 0 \<le> s \<and> s \<le> 1" by simp
  have c: "clock (environ start_world) \<le> clock (later 1)" by (simp add: later_def)
  from score_and_time_ranges [where ext = "constant_validator [1 / 2, 1] 1"
      and model = "DecisionTreeClassifier None (Some 0)" and X = 0 and y = 0 and cv = 2
      and w = start_world and scores = "[1 / 2, 1]" and e' = "later 1" and lib = exact_library,
      OF h n b c] h n c exact_library_respects_ranges
  show ?thesis by simp
qed

section \<open>C6: an exception of the external library propagates\<close>

text \<open>
  C6. If the external cross-validator raises, \<^verbatim>\<open>score_and_time\<close> returns that same
  exception, having called the cross-validator once: no retry, no recovery, no translation.
  If the evaluations of the roster entries before \<open>m\<close> succeed and the evaluation of \<open>m\<close>
  raises, \<^verbatim>\<open>ml_benchmark\<close> returns that same exception and no table, in the world the
  failing evaluation left: the log holds one call for each entry up to \<open>m\<close> and none for
  the entries after it. Conversely, every exception \<^verbatim>\<open>ml_benchmark\<close> returns was raised
  by the evaluation of a roster entry.
\<close>

theorem errors_propagate:
  "(ext model X y cv (environ w) = (Inl err, e') \<longrightarrow>
      score_and_time lib ext model X y cv w =
        (Inl err, w\<lparr>environ := e', cv_log := cv_log w @ [(model, X, y, cv)]\<rparr>))
   \<and> (roster = pre @ m # post
      \<and> evaluate_roster lib ext pre X y cv (w\<lparr>stdout := stdout w @ header X y w\<rparr>) = (Inr l, w1)
      \<and> score_and_time lib ext m X y cv w1 = (Inl err, w2) \<longrightarrow>
      ml_benchmark lib ext X y cv w = (Inl err, w2)
      \<and> cv_log w2 = cv_log w @ map (\<lambda>m. (m, X, y, cv)) (pre @ [m]))
   \<and> (fst (ml_benchmark lib ext X y cv w) = Inl err \<longrightarrow>
      (\<exists>pre m post l w1. roster = pre @ m # post
        \<and> evaluate_roster lib ext pre X y cv (w\<lparr>stdout := stdout w @ header X y w\<rparr>) = (Inr l, w1)
        \<and> score_and_time lib ext m X y cv w1 = (Inl err, snd (ml_benchmark lib ext X y cv w))))"
proof (intro conjI impI)
  assume "ext model X y cv (environ w) = (Inl err, e')"
  then show "score_and_time lib ext model X y cv w =
        (Inl err, w\<lparr>environ := e', cv_log := cv_log w @ [(model, X, y, cv)]\<rparr>)"
    by (simp add: score_and_time_unfold)
next
  let ?w0 = "w\<lparr>stdout := stdout w @ header X y w\<rparr>"
  assume a: "roster = pre @ m # post
      \<and> evaluate_roster lib ext pre X y cv ?w0 = (Inr l, w1)
      \<and> score_and_time lib ext m X y cv w1 = (Inl err, w2)"
  then have r: "roster = pre @ m # post"
    and p: "evaluate_roster lib ext pre X y cv ?w0 = (Inr l, w1)"
    and f: "score_and_time lib ext m X y cv w1 = (Inl err, w2)" by blast+
  have "evaluate_roster lib ext (pre @ m # post) X y cv ?w0 = (Inl err, w2)"
    unfolding evaluate_roster_append p by (simp add: f)
  then have "evaluate_roster lib ext roster X y cv ?w0 = (Inl err, w2)"
    by (simp only: r)
  then show "ml_benchmark lib ext X y cv w = (Inl err, w2)"
    by (simp add: ml_benchmark_evaluate_roster)
  from a have "cv_log w1 = cv_log w @ map (\<lambda>m. (m, X, y, cv)) pre"
    using evaluate_roster_rows [of lib ext pre X y cv ?w0 l w1] by simp
  moreover from a have "cv_log w2 = cv_log w1 @ [(m, X, y, cv)]"
    using score_and_time_log [of lib ext m X y cv w1] by simp
  ultimately show "cv_log w2 = cv_log w @ map (\<lambda>m. (m, X, y, cv)) (pre @ [m])" by simp
next
  let ?w0 = "w\<lparr>stdout := stdout w @ header X y w\<rparr>"
  assume b: "fst (ml_benchmark lib ext X y cv w) = Inl err"
  obtain r w' where c: "evaluate_roster lib ext roster X y cv ?w0 = (r, w')"
    by (cases "evaluate_roster lib ext roster X y cv ?w0")
  show "\<exists>pre m post l w1. roster = pre @ m # post
        \<and> evaluate_roster lib ext pre X y cv ?w0 = (Inr l, w1)
        \<and> score_and_time lib ext m X y cv w1 = (Inl err, snd (ml_benchmark lib ext X y cv w))"
  proof (cases r)
    case (Inl e)
    with b c have "evaluate_roster lib ext roster X y cv ?w0 = (Inl err, w')"
      and "snd (ml_benchmark lib ext X y cv w) = w'"
      by (simp_all add: ml_benchmark_evaluate_roster)
    then show ?thesis using evaluate_roster_error [of lib ext roster X y cv ?w0 err w'] by simp
  next
    case (Inr rows)
    with c have "\<exists>w''. evaluate_roster lib ext roster X y cv w = (Inr rows, w'')"
      using evaluate_roster_stdout [where lib = lib and ext = ext and ms = roster and X = X and y = y
          and cv = cv and w = w and s = "stdout w @ header X y w"]
      by (auto split: prod.splits)
    then have "\<exists>df. fst (ml_benchmark lib ext X y cv w) = Inr df"
      by (auto simp add: ml_benchmark_error_or_table)
    with b show ?thesis by simp
  qed
qed

text \<open>A run in which the third evaluation raises.\<close>

theorem errors_propagate_witness:
  "failing_validator
       (AdaBoostClassifier (DecisionTreeClassifier (Some 2) None) 50 ''SAMME'' (Some 0))
       (Error ''ValueError'' ''fit failed'')
       (AdaBoostClassifier (DecisionTreeClassifier (Some 2) None) 50 ''SAMME'' (Some 0))
       0 0 2 (environ start_world)
     = (Inl (Error ''ValueError'' ''fit failed''),
        later (1 / 4))
   \<and> score_and_time exact_library
       (failing_validator
         (AdaBoostClassifier (DecisionTreeClassifier (Some 2) None) 50 ''SAMME'' (Some 0))
         (Error ''ValueError'' ''fit failed''))
       (AdaBoostClassifier (DecisionTreeClassifier (Some 2) None) 50 ''SAMME'' (Some 0))
       0 0 2 start_world
     = (Inl (Error ''ValueError'' ''fit failed''),
        start_world\<lparr>environ := later (1 / 4),
          cv_log := cv_log start_world @
            [(AdaBoostClassifier (DecisionTreeClassifier (Some 2) None) 50 ''SAMME'' (Some 0),
              0, 0, 2)]\<rparr>)
   \<and> roster = [DecisionTreeClassifier None (Some 0), RandomForestClassifier 50 (Some 2) (Some 0)]
        @ AdaBoostClassifier (DecisionTreeClassifier (Some 2) None) 50 ''SAMME'' (Some 0)
        # [GradientBoostingClassifier 50 (Some 2) None, XGBClassifier 50 (Some 2) (Some 0)]
   \<and> evaluate_roster exact_library
       (failing_validator
         (AdaBoostClassifier (DecisionTreeClassifier (Some 2) None) 50 ''SAMME'' (Some 0))
         (Error ''ValueError'' ''fit failed''))
       [DecisionTreeClassifier None (Some 0), RandomForestClassifier 50 (Some 2) (Some 0)]
       0 0 2 (start_world\<lparr>stdout := stdout start_world @ header 0 0 start_world\<rparr>)
     = (Inr [[PyFloat (3 / 4), PyFloat (1 / 2), PyTimedelta 1000000],
             [PyFloat (3 / 4), PyFloat (1 / 2), PyTimedelta 1000000]],
        \<lparr>environ = later 2, stdout = header 0 0 start_world,
         cv_log = [(DecisionTreeClassifier None (Some 0), 0, 0, 2),
                   (RandomForestClassifier 50 (Some 2) (Some 0), 0, 0, 2)]\<rparr>)
   \<and> score_and_time exact_library
       (failing_validator
         (AdaBoostClassifier (DecisionTreeClassifier (Some 2) None) 50 ''SAMME'' (Some 0))
         (Error ''ValueError'' ''fit failed''))
       (AdaBoostClassifier (DecisionTreeClassifier (Some 2) None) 50 ''SAMME'' (Some 0))
       0 0 2
       \<lparr>environ = later 2, stdout = header 0 0 start_world,
        cv_log = [(DecisionTreeClassifier None (Some 0), 0, 0, 2),
                  (RandomForestClassifier 50 (Some 2) (Some 0), 0, 0, 2)]\<rparr>
     = (Inl (Error ''ValueError'' ''fit failed''),
        \<lparr>environ = later (9 / 4), stdout = header 0 0 start_world,
         cv_log = [(DecisionTreeClassifier None (Some 0), 0, 0, 2),
                   (RandomForestClassifier 50 (Some 2) (Some 0), 0, 0, 2),
                   (AdaBoostClassifier (DecisionTreeClassifier (Some 2) None) 50 ''SAMME''
                      (Some 0), 0, 0, 2)]\<rparr>)
   \<and> ml_benchmark exact_library
       (failing_validator
         (AdaBoostClassifier (DecisionTreeClassifier (Some 2) None) 50 ''SAMME'' (Some 0))
         (Error ''ValueError'' ''fit failed''))
       0 0 2 start_world
     = (Inl (Error ''ValueError'' ''fit failed''),
        \<lparr>environ = later (9 / 4), stdout = header 0 0 start_world,
         cv_log = [(DecisionTreeClassifier None (Some 0), 0, 0, 2),
                   (RandomForestClassifier 50 (Some 2) (Some 0), 0, 0, 2),
                   (AdaBoostClassifier (DecisionTreeClassifier (Some 2) None) 50 ''SAMME''
                      (Some 0), 0, 0, 2)]\<rparr>)"
proof -
  let ?m1 = "DecisionTreeClassifier None (Some 0)"
  let ?m2 = "RandomForestClassifier 50 (Some 2) (Some 0)"
  let ?m3 = "AdaBoostClassifier (DecisionTreeClassifier (Some 2) None) 50 ''SAMME'' (Some 0)"
  let ?m4 = "GradientBoostingClassifier 50 (Some 2) None"
  let ?m5 = "XGBClassifier 50 (Some 2) (Some 0)"
  let ?err = "Error ''ValueError'' ''fit failed''"
  let ?ext = "failing_validator ?m3 ?err"
  let ?w0 = "start_world\<lparr>stdout := stdout start_world @ header 0 0 start_world\<rparr>"
  let ?w1 = "\<lparr>environ = later 2, stdout = header 0 0 start_world,
              cv_log = [(?m1, 0, 0, 2), (?m2, 0, 0, 2)]\<rparr>"
  let ?w2 = "\<lparr>environ = later (9 / 4), stdout = header 0 0 start_world,
              cv_log = [(?m1, 0, 0, 2), (?m2, 0, 0, 2), (?m3, 0, 0, 2)]\<rparr>"
  have h1: "?ext ?m3 0 0 2 (environ start_world) = (Inl ?err, later (1 / 4))"
    by (simp add: failing_validator_def later_def)
  have r: "roster = [?m1, ?m2] @ ?m3 # [?m4, ?m5]" by (simp add: roster_def)
  have p: "evaluate_roster exact_library ?ext [?m1, ?m2] 0 0 2 ?w0 =
      (Inr [[PyFloat (3 / 4), PyFloat (1 / 2), PyTimedelta 1000000],
            [PyFloat (3 / 4), PyFloat (1 / 2), PyTimedelta 1000000]], ?w1)"
    by (simp add: failing_validator_good later_def start_world_def)
  have f: "score_and_time exact_library ?ext ?m3 0 0 2 ?w1 = (Inl ?err, ?w2)"
    by (simp add: failing_validator_bad later_def start_world_def)
  note t = errors_propagate [where lib = exact_library and ext = ?ext and X = 0 and y = 0 and cv = 2
      and w = start_world and model = ?m3 and err = ?err and e' = "later (1 / 4)"
      and pre = "[?m1, ?m2]" and m = ?m3 and post = "[?m4, ?m5]"
      and l = "[[PyFloat (3 / 4), PyFloat (1 / 2), PyTimedelta 1000000],
                [PyFloat (3 / 4), PyFloat (1 / 2), PyTimedelta 1000000]]"
      and ?w1.0 = ?w1 and ?w2.0 = ?w2]
  from t h1 have a: "score_and_time exact_library ?ext ?m3 0 0 2 start_world =
      (Inl ?err, start_world\<lparr>environ := later (1 / 4),
         cv_log := cv_log start_world @ [(?m3, 0, 0, 2)]\<rparr>)"
    by blast
  from t r p f have b: "ml_benchmark exact_library ?ext 0 0 2 start_world = (Inl ?err, ?w2)"
    by blast
  from h1 a r p f b show ?thesis by blast
qed

section \<open>C7: the average of the four tables\<close>

text \<open>
  C7. The notebook averages the four tables that four runs of \<^verbatim>\<open>ml_benchmark\<close> return:
  \<^verbatim>\<open>(df_benchmark_1 + df_benchmark_2 + df_benchmark_3 + df_benchmark_4).divide(4)\<close>. The
  result exists, keeps the five row names and the three columns, and every cell of it is the
  arithmetic mean of the corresponding cells of the four tables: the duration cell exactly
  (the four durations are whole microseconds, so the division of their nanoseconds by 4
  leaves no remainder), the mean-score and score-spread cells as \<^verbatim>\<open>float64\<close> computes the
  mean, within \<open>7 * eps / 4\<close> of it when each of the three additions and the division is
  within \<open>eps\<close> of the exact result. The notebook forms no average of another number of
  tables.
\<close>

theorem df_benchmark_total_cells:
  assumes "fst (ml_benchmark lib ext1 X1 y1 cv1 w1) = Inr t1"
    and "fst (ml_benchmark lib ext2 X2 y2 cv2 w2) = Inr t2"
    and "fst (ml_benchmark lib ext3 X3 y3 cv3 w3) = Inr t3"
    and "fst (ml_benchmark lib ext4 X4 y4 cv4 w4) = Inr t4"
    and "i < 5"
    and "mean4_accurate lib eps (mean_score t1 i) (mean_score t2 i) (mean_score t3 i)
           (mean_score t4 i)"
    and "mean4_accurate lib eps (score_spread t1 i) (score_spread t2 i) (score_spread t3 i)
           (score_spread t4 i)"
  shows "\<exists>total. df_benchmark_total lib t1 t2 t3 t4 = Some total
    \<and> df_index total = rows_name \<and> df_columns total = columns_name
    \<and> length (df_data total) = 5
    \<and> df_data total ! i =
        [Num (mean_score total i), Num (score_spread total i), TD (duration total i)]
    \<and> \<bar>mean_score total i
         - (mean_score t1 i + mean_score t2 i + mean_score t3 i + mean_score t4 i) / 4\<bar>
        \<le> 7 * eps / 4
    \<and> \<bar>score_spread total i
         - (score_spread t1 i + score_spread t2 i + score_spread t3 i + score_spread t4 i) / 4\<bar>
        \<le> 7 * eps / 4
    \<and> real_of_int (duration total i) =
        real_of_int (duration t1 i + duration t2 i + duration t3 i + duration t4 i) / 4"
proof -
  note c1 = ml_benchmark_cells [OF assms(1)] and c2 = ml_benchmark_cells [OF assms(2)]
    and c3 = ml_benchmark_cells [OF assms(3)] and c4 = ml_benchmark_cells [OF assms(4)]
  from c1 c2 c3 c4 have b: "benchmark_table t1" "benchmark_table t2" "benchmark_table t3"
    "benchmark_table t4" by simp_all
  from df_benchmark_total_benchmark [OF b, of lib] obtain total where
    t: "df_benchmark_total lib t1 t2 t3 t4 = Some total" and bt: "benchmark_table total"
    and v: "\<forall>i<5. mean_score total i =
            float_mean4 lib (mean_score t1 i) (mean_score t2 i) (mean_score t3 i) (mean_score t4 i)
          \<and> score_spread total i =
            float_mean4 lib (score_spread t1 i) (score_spread t2 i) (score_spread t3 i)
              (score_spread t4 i)
          \<and> duration total i =
            truncate_div (duration t1 i + duration t2 i + duration t3 i + duration t4 i) 4"
    by blast
  from bt assms(5) have "benchmark_row (df_data total ! i)"
    by (simp add: benchmark_table_def list_all_length)
  from benchmark_row_eq [OF this]
  have r: "df_data total ! i =
        [Num (mean_score total i), Num (score_spread total i), TD (duration total i)]"
    by (simp add: mean_score_def score_spread_def duration_def)
  from c1 c2 c3 c4 assms(5) have "1000 dvd duration t1 i" "1000 dvd duration t2 i"
    "1000 dvd duration t3 i" "1000 dvd duration t4 i" by simp_all
  from four_whole_microseconds [OF this] v assms(5)
  have d: "real_of_int (duration total i) =
        real_of_int (duration t1 i + duration t2 i + duration t3 i + duration t4 i) / 4"
    by simp
  from v assms(5) mean4_bound [OF assms(6)] mean4_bound [OF assms(7)]
  have m: "\<bar>mean_score total i
         - (mean_score t1 i + mean_score t2 i + mean_score t3 i + mean_score t4 i) / 4\<bar>
        \<le> 7 * eps / 4"
    "\<bar>score_spread total i
         - (score_spread t1 i + score_spread t2 i + score_spread t3 i + score_spread t4 i) / 4\<bar>
        \<le> 7 * eps / 4"
    by simp_all
  from t bt r m d show ?thesis by (auto simp add: benchmark_table_def)
qed

text \<open>
  Four runs whose fold scores and processor times are binary fractions: the first row of
  the average holds the means 0.78125, 0.4375 and 0.9375 seconds.
\<close>

theorem df_benchmark_total_cells_witness:
  "fst (ml_benchmark exact_library (constant_validator [1 / 2, 1] (1 / 4)) 0 0 2 start_world)
     = Inr (uniform_table (3 / 4) (1 / 2) 250000000)
   \<and> fst (ml_benchmark exact_library (constant_validator [3 / 4, 1] (1 / 2)) 0 0 2 start_world)
     = Inr (uniform_table (7 / 8) (1 / 4) 500000000)
   \<and> fst (ml_benchmark exact_library (constant_validator [1, 1] 1) 0 0 2 start_world)
     = Inr (uniform_table 1 0 1000000000)
   \<and> fst (ml_benchmark exact_library (constant_validator [0, 1] 2) 0 0 2 start_world)
     = Inr (uniform_table (1 / 2) 1 2000000000)
   \<and> (0::nat) < 5
   \<and> mean4_accurate exact_library 0 (3 / 4) (7 / 8) 1 (1 / 2)
   \<and> mean4_accurate exact_library 0 (1 / 2) (1 / 4) 0 1
   \<and> (\<exists>total. df_benchmark_total exact_library (uniform_table (3 / 4) (1 / 2) 250000000)
          (uniform_table (7 / 8) (1 / 4) 500000000) (uniform_table 1 0 1000000000)
          (uniform_table (1 / 2) 1 2000000000) = Some total
        \<and> df_data total ! 0 = [Num (25 / 32), Num (7 / 16), TD 937500000])"
proof -
  let ?t1 = "uniform_table (3 / 4) (1 / 2) 250000000"
  let ?t2 = "uniform_table (7 / 8) (1 / 4) 500000000"
  let ?t3 = "uniform_table 1 0 1000000000"
  let ?t4 = "uniform_table (1 / 2) 1 2000000000"
  have i: "(0::nat) < 5" by simp
  have c: "mean_score ?t1 0 = 3 / 4" "mean_score ?t2 0 = 7 / 8" "mean_score ?t3 0 = 1"
    "mean_score ?t4 0 = 1 / 2" "score_spread ?t1 0 = 1 / 2" "score_spread ?t2 0 = 1 / 4"
    "score_spread ?t3 0 = 0" "score_spread ?t4 0 = 1" "duration ?t1 0 = 250000000"
    "duration ?t2 0 = 500000000" "duration ?t3 0 = 1000000000" "duration ?t4 0 = 2000000000"
    by (simp_all add: uniform_table_cells)
  have a1: "mean4_accurate exact_library 0 (mean_score ?t1 0) (mean_score ?t2 0)
      (mean_score ?t3 0) (mean_score ?t4 0)" by (rule exact_library_mean4)
  have a2: "mean4_accurate exact_library 0 (score_spread ?t1 0) (score_spread ?t2 0)
      (score_spread ?t3 0) (score_spread ?t4 0)" by (rule exact_library_mean4)
  from df_benchmark_total_cells [OF four_runs i a1 a2]
  obtain total where
    t: "df_benchmark_total exact_library ?t1 ?t2 ?t3 ?t4 = Some total"
    and r: "df_data total ! 0 =
        [Num (mean_score total 0), Num (score_spread total 0), TD (duration total 0)]"
    and m: "\<bar>mean_score total 0
         - (mean_score ?t1 0 + mean_score ?t2 0 + mean_score ?t3 0 + mean_score ?t4 0) / 4\<bar>
        \<le> 7 * 0 / 4"
    and s: "\<bar>score_spread total 0
         - (score_spread ?t1 0 + score_spread ?t2 0 + score_spread ?t3 0 + score_spread ?t4 0) / 4\<bar>
        \<le> 7 * 0 / 4"
    and d: "real_of_int (duration total 0) =
        real_of_int (duration ?t1 0 + duration ?t2 0 + duration ?t3 0 + duration ?t4 0) / 4"
    by blast
  from m have m': "mean_score total 0 = 25 / 32" unfolding c by simp
  from s have s': "score_spread total 0 = 7 / 16" unfolding c by simp
  from d have "real_of_int (duration total 0) = real_of_int 937500000" unfolding c by simp
  then have d': "duration total 0 = 937500000" by (simp only: of_int_eq_iff)
  from r m' s' d' have "df_data total ! 0 = [Num (25 / 32), Num (7 / 16), TD 937500000]"
    by simp
  with t have "\<exists>total. df_benchmark_total exact_library ?t1 ?t2 ?t3 ?t4 = Some total
        \<and> df_data total ! 0 = [Num (25 / 32), Num (7 / 16), TD 937500000]" by blast
  with four_runs i a1 a2 show ?thesis unfolding c by blast
qed

section \<open>C8: one evaluation per roster entry, one after another\<close>

text \<open>
  C8. Let the external cross-validator succeed on the five roster entries in turn, each
  call starting in the environment the previous one left. Then \<^verbatim>\<open>ml_benchmark\<close>, after
  printing its three lines, calls \<^verbatim>\<open>score_and_time\<close> once per roster entry, in roster
  order, each time with the same features, labels and fold count; every call starts in the
  world the previous call returned, so the five evaluations run strictly one after another;
  and the table holds the five returned lists, row by row, in roster order. The log of the
  run shows exactly five calls of the cross-validator, one per roster entry, in that order.
\<close>

theorem ml_benchmark_one_after_another:
  assumes "roster = [m1, m2, m3, m4, m5]"
    and "ext m1 X y cv (environ w) = (Inr s1, e1)"
    and "ext m2 X y cv e1 = (Inr s2, e2)"
    and "ext m3 X y cv e2 = (Inr s3, e3)"
    and "ext m4 X y cv e3 = (Inr s4, e4)"
    and "ext m5 X y cv e4 = (Inr s5, e5)"
  shows "\<exists>r1 w1 r2 w2 r3 w3 r4 w4 r5 w5.
      score_and_time lib ext m1 X y cv (w\<lparr>stdout := stdout w @ header X y w\<rparr>) = (Inr r1, w1)
    \<and> score_and_time lib ext m2 X y cv w1 = (Inr r2, w2)
    \<and> score_and_time lib ext m3 X y cv w2 = (Inr r3, w3)
    \<and> score_and_time lib ext m4 X y cv w3 = (Inr r4, w4)
    \<and> score_and_time lib ext m5 X y cv w4 = (Inr r5, w5)
    \<and> ml_benchmark lib ext X y cv w =
          (Inr \<lparr>df_index = rows_name, df_columns = columns_name,
                df_data = map (map to_cell) [r1, r2, r3, r4, r5]\<rparr>, w5)
    \<and> cv_log w5 = cv_log w @ [(m1, X, y, cv), (m2, X, y, cv), (m3, X, y, cv),
                               (m4, X, y, cv), (m5, X, y, cv)]"
proof -
  let ?w0 = "w\<lparr>stdout := stdout w @ header X y w\<rparr>"
  have "ext m1 X y cv (environ ?w0) = (Inr s1, e1)" using assms(2) by simp
  from evaluate_roster_chain [where lib = lib and ext = ext and w = ?w0 and X = X and y = y and cv = cv
      and ?m1.0 = m1 and ?m2.0 = m2 and ?m3.0 = m3 and ?m4.0 = m4 and ?m5.0 = m5
      and ?s1.0 = s1 and ?s2.0 = s2 and ?s3.0 = s3 and ?s4.0 = s4 and ?s5.0 = s5
      and ?e1.0 = e1 and ?e2.0 = e2 and ?e3.0 = e3 and ?e4.0 = e4 and ?e5.0 = e5,
      OF this assms(3-6)]
  obtain r1 w1 r2 w2 r3 w3 r4 w4 r5 w5 where c:
    "score_and_time lib ext m1 X y cv ?w0 = (Inr r1, w1)"
    "score_and_time lib ext m2 X y cv w1 = (Inr r2, w2)"
    "score_and_time lib ext m3 X y cv w2 = (Inr r3, w3)"
    "score_and_time lib ext m4 X y cv w3 = (Inr r4, w4)"
    "score_and_time lib ext m5 X y cv w4 = (Inr r5, w5)"
    "evaluate_roster lib ext [m1, m2, m3, m4, m5] X y cv ?w0 = (Inr [r1, r2, r3, r4, r5], w5)"
    by blast
  from evaluate_roster_rows [OF c(6)]
  have l: "cv_log w5 = cv_log w @ [(m1, X, y, cv), (m2, X, y, cv), (m3, X, y, cv),
                               (m4, X, y, cv), (m5, X, y, cv)]"
    and s: "list_all (\<lambda>r. length r = 3) [r1, r2, r3, r4, r5]"
    by simp_all
  have "ml_benchmark lib ext X y cv w =
          (Inr \<lparr>df_index = rows_name, df_columns = columns_name,
                df_data = map (map to_cell) [r1, r2, r3, r4, r5]\<rparr>, w5)"
    using DataFrame_rows [OF _ s] c(6)
    by (simp add: ml_benchmark_evaluate_roster assms(1))
  with c(1-5) l show ?thesis by blast
qed

text \<open>A run in which every cross-validation returns the fold scores 0.5 and 1.0 after one second.\<close>

theorem ml_benchmark_one_after_another_witness:
  "roster = [DecisionTreeClassifier None (Some 0),
             RandomForestClassifier 50 (Some 2) (Some 0),
             AdaBoostClassifier (DecisionTreeClassifier (Some 2) None) 50 ''SAMME'' (Some 0),
             GradientBoostingClassifier 50 (Some 2) None,
             XGBClassifier 50 (Some 2) (Some 0)]
   \<and> constant_validator [1 / 2, 1] 1 (DecisionTreeClassifier None (Some 0)) 0 0 2
        (environ start_world) = (Inr [1 / 2, 1], later 1)
   \<and> constant_validator [1 / 2, 1] 1 (RandomForestClassifier 50 (Some 2) (Some 0)) 0 0 2
        (later 1) = (Inr [1 / 2, 1], later 2)
   \<and> constant_validator [1 / 2, 1] 1
        (AdaBoostClassifier (DecisionTreeClassifier (Some 2) None) 50 ''SAMME'' (Some 0)) 0 0 2
        (later 2) = (Inr [1 / 2, 1], later 3)
   \<and> constant_validator [1 / 2, 1] 1 (GradientBoostingClassifier 50 (Some 2) None) 0 0 2
        (later 3) = (Inr [1 / 2, 1], later 4)
   \<and> constant_validator [1 / 2, 1] 1 (XGBClassifier 50 (Some 2) (Some 0)) 0 0 2
        (later 4) = (Inr [1 / 2, 1], later 5)
   \<and> (\<exists>w5. ml_benchmark exact_library (constant_validator [1 / 2, 1] 1) 0 0 2 start_world =
          (Inr \<lparr>df_index = rows_name, df_columns = columns_name,
                df_data = [[Num (3 / 4), Num (1 / 2), TD 1000000000],
                           [Num (3 / 4), Num (1 / 2), TD 1000000000],
                           [Num (3 / 4), Num (1 / 2), TD 1000000000],
                           [Num (3 / 4), Num (1 / 2), TD 1000000000],
                           [Num (3 / 4), Num (1 / 2), TD 1000000000]]\<rparr>, w5)
        \<and> cv_log w5 =
            [(DecisionTreeClassifier None (Some 0), 0, 0, 2),
             (RandomForestClassifier 50 (Some 2) (Some 0), 0, 0, 2),
             (AdaBoostClassifier (DecisionTreeClassifier (Some 2) None) 50 ''SAMME'' (Some 0),
              0, 0, 2),
             (GradientBoostingClassifier 50 (Some 2) None, 0, 0, 2),
             (XGBClassifier 50 (Some 2) (Some 0), 0, 0, 2)])"
proof -
  let ?ext = "constant_validator [1 / 2, 1] 1"
  let ?m1 = "DecisionTreeClassifier None (Some 0)"
  let ?m2 = "RandomForestClassifier 50 (Some 2) (Some 0)"
  let ?m3 = "AdaBoostClassifier (DecisionTreeClassifier (Some 2) None) 50 ''SAMME'' (Some 0)"
  let ?m4 = "GradientBoostingClassifier 50 (Some 2) None"
  let ?m5 = "XGBClassifier 50 (Some 2) (Some 0)"
  have r: "roster = [?m1, ?m2, ?m3, ?m4, ?m5]" by (simp add: roster_def)
  have h1: "?ext ?m1 0 0 2 (environ start_world) = (Inr [1 / 2, 1], later 1)"
    by (rule constant_validator_start)
  have h2: "?ext ?m2 0 0 2 (later 1) = (Inr [1 / 2, 1], later 2)"
    using constant_validator_later [of "[1 / 2, 1]" 1 ?m2 0 0 2 1] by simp
  have h3: "?ext ?m3 0 0 2 (later 2) = (Inr [1 / 2, 1], later 3)"
    using constant_validator_later [of "[1 / 2, 1]" 1 ?m3 0 0 2 2] by simp
  have h4: "?ext ?m4 0 0 2 (later 3) = (Inr [1 / 2, 1], later 4)"
    using constant_validator_later [of "[1 / 2, 1]" 1 ?m4 0 0 2 3] by simp
  have h5: "?ext ?m5 0 0 2 (later 4) = (Inr [1 / 2, 1], later 5)"
    using constant_validator_later [of "[1 / 2, 1]" 1 ?m5 0 0 2 4] by simp
  have c: "cv_log start_world = []" by (simp add: start_world_def)
  have t: "exact_timedelta 1 = 1000000" by (rule exact_timedelta_one)
  from ml_benchmark_one_after_another [where lib = exact_library and ext = ?ext and w = start_world and X = 0
      and y = 0 and cv = 2
      and ?m1.0 = ?m1 and ?m2.0 = ?m2 and ?m3.0 = ?m3 and ?m4.0 = ?m4 and ?m5.0 = ?m5
      and ?s1.0 = "[1 / 2, 1]" and ?s2.0 = "[1 / 2, 1]" and ?s3.0 = "[1 / 2, 1]"
      and ?s4.0 = "[1 / 2, 1]" and ?s5.0 = "[1 / 2, 1]"
      and ?e1.0 = "later 1" and ?e2.0 = "later 2" and ?e3.0 = "later 3" and ?e4.0 = "later 4"
      and ?e5.0 = "later 5", OF r h1 h2 h3 h4 h5]
  have "\<exists>w5. ml_benchmark exact_library ?ext 0 0 2 start_world =
          (Inr \<lparr>df_index = rows_name, df_columns = columns_name,
                df_data = [[Num (3 / 4), Num (1 / 2), TD 1000000000],
                           [Num (3 / 4), Num (1 / 2), TD 1000000000],
                           [Num (3 / 4), Num (1 / 2), TD 1000000000],
                           [Num (3 / 4), Num (1 / 2), TD 1000000000],
                           [Num (3 / 4), Num (1 / 2), TD 1000000000]]\<rparr>, w5)
        \<and> cv_log w5 = [(?m1, 0, 0, 2), (?m2, 0, 0, 2), (?m3, 0, 0, 2), (?m4, 0, 0, 2),
                        (?m5, 0, 0, 2)]"
    by (auto simp add: constant_validator_run c t)
  with r h1 h2 h3 h4 h5 show ?thesis by blast
qed

section \<open>C9: the dataset is not mutated\<close>

text \<open>
  C9. \<^verbatim>\<open>score_and_time\<close> leaves the environment exactly as its one call of the external
  cross-validator left it: the notebook's own code writes to no array. So, provided the
  external cross-validator does not write to the feature matrix and the label vector it is
  given, both are the same after \<^verbatim>\<open>score_and_time\<close> and after \<^verbatim>\<open>ml_benchmark\<close> as
  before, whether the run succeeds or raises.
\<close>

theorem dataset_never_mutated:
  assumes "\<And>m e. matrices (snd (ext m X y cv e)) X = matrices e X"
    and "\<And>m e. vectors (snd (ext m X y cv e)) y = vectors e y"
  shows "environ (snd (score_and_time lib ext model X y cv w)) = snd (ext model X y cv (environ w))
    \<and> matrices (environ (snd (score_and_time lib ext model X y cv w))) X = matrices (environ w) X
    \<and> vectors (environ (snd (score_and_time lib ext model X y cv w))) y = vectors (environ w) y
    \<and> matrices (environ (snd (ml_benchmark lib ext X y cv w))) X = matrices (environ w) X
    \<and> vectors (environ (snd (ml_benchmark lib ext X y cv w))) y = vectors (environ w) y"
proof -
  have s: "environ (snd (score_and_time lib ext model X y cv w)) = snd (ext model X y cv (environ w))"
    by (simp add: score_and_time_unfold split: prod.splits sum.splits)
  have "environ (snd (ml_benchmark lib ext X y cv w)) =
      environ (snd (evaluate_roster lib ext roster X y cv w))"
    by (simp add: ml_benchmark_error_or_table split: prod.splits sum.splits)
  with evaluate_roster_frame [where ext = ext and X = X and y = y and cv = cv and lib = lib
      and ms = roster and w = w, OF assms] s show ?thesis
    by (simp add: assms)
qed

text \<open>
  A cross-validator that writes a work array at another address: the dataset at address 0
  is untouched, the array at address 1 is not.
\<close>

theorem dataset_never_mutated_witness:
  "(\<forall>m e. matrices (snd (scratch_validator m 0 0 2 e)) 0 = matrices e 0)
   \<and> (\<forall>m e. vectors (snd (scratch_validator m 0 0 2 e)) 0 = vectors e 0)
   \<and> matrices (environ (snd (score_and_time exact_library scratch_validator
          (DecisionTreeClassifier None (Some 0)) 0 0 2 start_world))) 0
       = matrices (environ start_world) 0
   \<and> vectors (environ (snd (score_and_time exact_library scratch_validator
          (DecisionTreeClassifier None (Some 0)) 0 0 2 start_world))) 0
       = vectors (environ start_world) 0
   \<and> matrices (environ (snd (ml_benchmark exact_library scratch_validator 0 0 2 start_world))) 0
       = matrices (environ start_world) 0
   \<and> vectors (environ (snd (ml_benchmark exact_library scratch_validator 0 0 2 start_world))) 0
       = vectors (environ start_world) 0
   \<and> matrices (environ (snd (ml_benchmark exact_library scratch_validator 0 0 2 start_world))) 1
       \<noteq> matrices (environ start_world) 1"
proof -
  have a: "\<And>m e. matrices (snd (scratch_validator m 0 0 2 e)) 0 = matrices e 0"
    by (simp add: scratch_validator_def)
  have b: "\<And>m e. vectors (snd (scratch_validator m 0 0 2 e)) 0 = vectors e 0"
    by (simp add: scratch_validator_def)
  have c: "matrices (environ (snd (ml_benchmark exact_library scratch_validator 0 0 2 start_world))) 1
       \<noteq> matrices (environ start_world) 1"
    by (simp add: ml_benchmark_error_or_table roster_def score_and_time_unfold
        scratch_validator_def start_world_def)
  from dataset_never_mutated [where ext = scratch_validator and X = 0 and y = 0 and cv = 2
      and lib = exact_library and model = "DecisionTreeClassifier None (Some 0)"
      and w = start_world, OF a b] a b c
  show ?thesis by simp
qed

section \<open>C10: the aggregate averages values that are already rounded\<close>

text \<open>
  C10. Let four runs of \<^verbatim>\<open>ml_benchmark\<close> return four tables. In every row, the mean-score
  cell of the notebook's aggregate is the \<^verbatim>\<open>float64\<close> mean of the four mean-score cells
  stored in the tables, and its score-spread cell the mean of the four stored score-spread
  cells; each stored cell is the value \<^verbatim>\<open>score_and_time\<close> had already rounded to 3 digits,
  \<^verbatim>\<open>round(scores.mean(), 3)\<close> and \<^verbatim>\<open>round(scores.std()*2, 3)\<close> of that dataset's fold
  scores. The aggregate is not rounded again and is not the rounded mean of the raw fold
  scores: when three datasets have the fold scores 1791/2048, 1791/2048 (stored mean 0.875)
  and one has 0.5, 1.0 (stored mean 0.75), the aggregate is 0.84375, and the mean of the
  eight raw fold scores rounded to 3 digits is 0.843.
\<close>

theorem df_benchmark_total_of_rounded:
  assumes "fst (ml_benchmark lib ext1 X1 y1 cv1 w1) = Inr t1"
    and "fst (ml_benchmark lib ext2 X2 y2 cv2 w2) = Inr t2"
    and "fst (ml_benchmark lib ext3 X3 y3 cv3 w3) = Inr t3"
    and "fst (ml_benchmark lib ext4 X4 y4 cv4 w4) = Inr t4"
    and "i < 5"
  shows "(\<exists>total. df_benchmark_total lib t1 t2 t3 t4 = Some total
      \<and> mean_score total i =
          float_mean4 lib (mean_score t1 i) (mean_score t2 i) (mean_score t3 i) (mean_score t4 i)
      \<and> score_spread total i =
          float_mean4 lib (score_spread t1 i) (score_spread t2 i) (score_spread t3 i)
            (score_spread t4 i))
    \<and> mean_score t1 i = py_round lib (np_mean lib (external_scores ext1 roster X1 y1 cv1 (environ w1) ! i)) 3
    \<and> mean_score t2 i = py_round lib (np_mean lib (external_scores ext2 roster X2 y2 cv2 (environ w2) ! i)) 3
    \<and> mean_score t3 i = py_round lib (np_mean lib (external_scores ext3 roster X3 y3 cv3 (environ w3) ! i)) 3
    \<and> mean_score t4 i = py_round lib (np_mean lib (external_scores ext4 roster X4 y4 cv4 (environ w4) ! i)) 3
    \<and> score_spread t1 i =
        py_round lib (np_std lib 0 (external_scores ext1 roster X1 y1 cv1 (environ w1) ! i) * 2) 3
    \<and> score_spread t2 i =
        py_round lib (np_std lib 0 (external_scores ext2 roster X2 y2 cv2 (environ w2) ! i) * 2) 3
    \<and> score_spread t3 i =
        py_round lib (np_std lib 0 (external_scores ext3 roster X3 y3 cv3 (environ w3) ! i) * 2) 3
    \<and> score_spread t4 i =
        py_round lib (np_std lib 0 (external_scores ext4 roster X4 y4 cv4 (environ w4) ! i) * 2) 3
    \<and> fst (ml_benchmark exact_library (constant_validator [1791 / 2048, 1791 / 2048] 1) 0 0 2
              start_world)
        = Inr (uniform_table (7 / 8) 0 1000000000)
    \<and> fst (ml_benchmark exact_library (constant_validator [1 / 2, 1] 1) 0 0 2 start_world)
        = Inr (uniform_table (3 / 4) (1 / 2) 1000000000)
    \<and> df_benchmark_total exact_library (uniform_table (7 / 8) 0 1000000000)
        (uniform_table (7 / 8) 0 1000000000) (uniform_table (7 / 8) 0 1000000000)
        (uniform_table (3 / 4) (1 / 2) 1000000000)
        = Some (uniform_table (27 / 32) (1 / 8) 1000000000)
    \<and> exact_round (exact_mean [1791 / 2048, 1791 / 2048, 1791 / 2048, 1791 / 2048,
                               1791 / 2048, 1791 / 2048, 1 / 2, 1]) 3 = 843 / 1000
    \<and> (27 / 32 :: real) \<noteq> 843 / 1000"
proof -
  note c1 = ml_benchmark_cells [OF assms(1)] and c2 = ml_benchmark_cells [OF assms(2)]
    and c3 = ml_benchmark_cells [OF assms(3)] and c4 = ml_benchmark_cells [OF assms(4)]
  from c1 c2 c3 c4 have b: "benchmark_table t1" "benchmark_table t2" "benchmark_table t3"
    "benchmark_table t4" by simp_all
  from df_benchmark_total_benchmark [OF b, of lib] assms(5)
  have "\<exists>total. df_benchmark_total lib t1 t2 t3 t4 = Some total
      \<and> mean_score total i =
          float_mean4 lib (mean_score t1 i) (mean_score t2 i) (mean_score t3 i) (mean_score t4 i)
      \<and> score_spread total i =
          float_mean4 lib (score_spread t1 i) (score_spread t2 i) (score_spread t3 i)
            (score_spread t4 i)"
    by blast
  moreover from c1 c2 c3 c4 assms(5) have
    "mean_score t1 i = py_round lib (np_mean lib (external_scores ext1 roster X1 y1 cv1 (environ w1) ! i)) 3"
    "mean_score t2 i = py_round lib (np_mean lib (external_scores ext2 roster X2 y2 cv2 (environ w2) ! i)) 3"
    "mean_score t3 i = py_round lib (np_mean lib (external_scores ext3 roster X3 y3 cv3 (environ w3) ! i)) 3"
    "mean_score t4 i = py_round lib (np_mean lib (external_scores ext4 roster X4 y4 cv4 (environ w4) ! i)) 3"
    "score_spread t1 i =
        py_round lib (np_std lib 0 (external_scores ext1 roster X1 y1 cv1 (environ w1) ! i) * 2) 3"
    "score_spread t2 i =
        py_round lib (np_std lib 0 (external_scores ext2 roster X2 y2 cv2 (environ w2) ! i) * 2) 3"
    "score_spread t3 i =
        py_round lib (np_std lib 0 (external_scores ext3 roster X3 y3 cv3 (environ w3) ! i) * 2) 3"
    "score_spread t4 i =
        py_round lib (np_std lib 0 (external_scores ext4 roster X4 y4 cv4 (environ w4) ! i) * 2) 3"
    by simp_all
  moreover have "(27 / 32 :: real) \<noteq> 843 / 1000" by simp
  ultimately show ?thesis
    using rounded_up_table half_one_table rounded_example_total rounded_raw_mean by blast
qed

text \<open>The four runs of that example.\<close>

theorem df_benchmark_total_of_rounded_witness:
  "fst (ml_benchmark exact_library (constant_validator [1791 / 2048, 1791 / 2048] 1) 0 0 2
          start_world)
     = Inr (uniform_table (7 / 8) 0 1000000000)
   \<and> fst (ml_benchmark exact_library (constant_validator [1 / 2, 1] 1) 0 0 2 start_world)
     = Inr (uniform_table (3 / 4) (1 / 2) 1000000000)
   \<and> (0::nat) < 5
   \<and> (\<exists>total. df_benchmark_total exact_library (uniform_table (7 / 8) 0 1000000000)
          (uniform_table (7 / 8) 0 1000000000) (uniform_table (7 / 8) 0 1000000000)
          (uniform_table (3 / 4) (1 / 2) 1000000000) = Some total
        \<and> mean_score total 0 = float_mean4 exact_library (7 / 8) (7 / 8) (7 / 8) (3 / 4)
        \<and> score_spread total 0 = float_mean4 exact_library 0 0 0 (1 / 2))
   \<and> mean_score (uniform_table (7 / 8) 0 1000000000) 0
        = py_round exact_library (np_mean exact_library [1791 / 2048, 1791 / 2048]) 3
   \<and> float_mean4 exact_library (7 / 8) (7 / 8) (7 / 8) (3 / 4) = 27 / 32"
proof -
  let ?A = "constant_validator [1791 / 2048, 1791 / 2048] 1"
  let ?B = "constant_validator [1 / 2, 1] 1"
  let ?tA = "uniform_table (7 / 8) 0 1000000000"
  let ?tB = "uniform_table (3 / 4) (1 / 2) 1000000000"
  have i: "(0::nat) < 5" by simp
  note t = df_benchmark_total_of_rounded [OF rounded_up_table rounded_up_table rounded_up_table
      half_one_table i]
  have c: "mean_score ?tA 0 = 7 / 8" "mean_score ?tB 0 = 3 / 4" "score_spread ?tA 0 = 0"
    "score_spread ?tB 0 = 1 / 2"
    by (simp_all add: uniform_table_cells)
  from t have "\<exists>total. df_benchmark_total exact_library ?tA ?tA ?tA ?tB = Some total
        \<and> mean_score total 0 = float_mean4 exact_library (7 / 8) (7 / 8) (7 / 8) (3 / 4)
        \<and> score_spread total 0 = float_mean4 exact_library 0 0 0 (1 / 2)"
    unfolding c by blast
  moreover from t have "mean_score ?tA 0
        = py_round exact_library (np_mean exact_library [1791 / 2048, 1791 / 2048]) 3"
    unfolding external_scores_constant [OF i] by blast
  moreover have "float_mean4 exact_library (7 / 8) (7 / 8) (7 / 8) (3 / 4) = 27 / 32"
    by (simp add: float_mean4_def)
  ultimately show ?thesis using rounded_up_table half_one_table i by blast
qed

end
